theory Spec2Isabelle
  imports Complex_Main
begin

section \<open>Numbers\<close>

text \<open>
  The program computes on JavaScript numbers. They are modelled as real numbers; a value
  that may be \<^verbatim>\<open>Infinity\<close> (the buffer gap of the playback observer) has the type
  \<open>number\<close> below, and a value that may be \<^verbatim>\<open>undefined\<close> or \<^verbatim>\<open>null\<close> is an
  \<open>option\<close>.
\<close>

datatype number = Fin real | Infinity

fun num_le :: "number \<Rightarrow> real \<Rightarrow> bool" where
  "num_le (Fin x) c = (x \<le> c)"
| "num_le Infinity c = False"

fun num_gt :: "number \<Rightarrow> real \<Rightarrow> bool" where
  "num_gt (Fin x) c = (x > c)"
| "num_gt Infinity c = True"

fun num_ge :: "number \<Rightarrow> real \<Rightarrow> bool" where
  "num_ge (Fin x) c = (x \<ge> c)"
| "num_ge Infinity c = True"

fun isFinite :: "number \<Rightarrow> bool" where
  "isFinite (Fin x) = True"
| "isFinite Infinity = False"

text \<open>
  \<^verbatim>\<open>x / y >= c\<close> on JavaScript numbers: a division by zero gives an infinity of the
  sign of \<open>x\<close>, or \<^verbatim>\<open>NaN\<close> (never above anything) when \<open>x\<close> is zero too.
\<close>

definition div_ge :: "real \<Rightarrow> real \<Rightarrow> real \<Rightarrow> bool" where
  "div_ge x y c = (if y = 0 then x > 0 else x / y \<ge> c)"

fun num_add :: "real \<Rightarrow> number \<Rightarrow> number" where
  "num_add c (Fin x) = Fin (c + x)"
| "num_add c Infinity = Infinity"

text \<open>A value that may be \<^verbatim>\<open>null\<close> or \<^verbatim>\<open>undefined\<close>, told apart.\<close>

datatype 'a nullable = Val 'a | Null | Undefined

section \<open>Playback observer (\<^verbatim>\<open>src/core/api/playback_observer.ts\<close>)\<close>

datatype IPlaybackObserverEventType =
    Ev_init | Ev_timeupdate | Ev_canplay | Ev_canplaythrough | Ev_play | Ev_seeking
  | Ev_seeked | Ev_stalled | Ev_loadedmetadata | Ev_ratechange | Ev_internal_seeking

datatype rebuffering_reason = R_seeking | R_not_ready | R_internal_seek | R_buffering

record IRebufferingStatus =
  reason :: rebuffering_reason
  rb_timestamp :: real
  rb_position :: "number option"

record IFreezingStatus =
  timestamp :: real

text \<open>
  \<^verbatim>\<open>IMediaInfos\<close>. The \<^verbatim>\<open>buffered\<close> time ranges are only read through
  \<^verbatim>\<open>getRange(buffered, currentTime)\<close> (\<^verbatim>\<open>utils/ranges\<close>), whose result is the field
  \<open>currentRange\<close>.
\<close>

record IMediaInfos =
  bufferGap :: number
  currentRange :: "(real \<times> real) option"
  position :: real
  duration :: real
  ended :: bool
  paused :: bool
  playbackRate :: real
  readyState :: nat
  seeking :: bool
  event :: IPlaybackObserverEventType

record IPlaybackObservation = IMediaInfos +
  rebuffering :: "IRebufferingStatus option"
  freezing :: "IFreezingStatus option"

text \<open>What \<^verbatim>\<open>getMediaInfos\<close> reads on the media element.\<close>

record HTMLMediaElement =
  el_currentRange :: "(real \<times> real) option"
  el_currentTime :: real
  el_duration :: real
  el_ended :: bool
  el_paused :: bool
  el_playbackRate :: real
  el_readyState :: nat
  el_seeking :: bool

record IPlaybackObserverOptions =
  withMediaSource :: bool
  lowLatencyMode :: bool

text \<open>
  The tunables of \<^verbatim>\<open>config\<close> the observer reads, with the default values the
  specification lists (section 6).
\<close>

definition MINIMUM_BUFFER_AMOUNT_BEFORE_FREEZING :: real where
  "MINIMUM_BUFFER_AMOUNT_BEFORE_FREEZING = 1 / 2"

definition REBUFFERING_GAP :: "bool \<Rightarrow> real" where
  "REBUFFERING_GAP lowLatency = (if lowLatency then 2 / 10 else 1 / 2)"

definition RESUME_GAP_AFTER_SEEKING :: "bool \<Rightarrow> real" where
  "RESUME_GAP_AFTER_SEEKING lowLatency = (if lowLatency then 1 / 2 else 3 / 2)"

definition RESUME_GAP_AFTER_NOT_ENOUGH_DATA :: "bool \<Rightarrow> real" where
  "RESUME_GAP_AFTER_NOT_ENOUGH_DATA lowLatency = (if lowLatency then 1 / 2 else 3 / 2)"

definition RESUME_GAP_AFTER_BUFFERING :: "bool \<Rightarrow> real" where
  "RESUME_GAP_AFTER_BUFFERING lowLatency = (if lowLatency then 1 / 2 else 3 / 2)"

definition getRebufferingEndGap :: "IRebufferingStatus \<Rightarrow> bool \<Rightarrow> real" where
  "getRebufferingEndGap rebufferingStatus lowLatency =
     (case reason rebufferingStatus of
        R_seeking \<Rightarrow> RESUME_GAP_AFTER_SEEKING lowLatency
      | R_internal_seek \<Rightarrow> RESUME_GAP_AFTER_SEEKING lowLatency
      | R_not_ready \<Rightarrow> RESUME_GAP_AFTER_NOT_ENOUGH_DATA lowLatency
      | R_buffering \<Rightarrow> RESUME_GAP_AFTER_BUFFERING lowLatency)"

definition hasLoadedUntilTheEnd :: "(real \<times> real) option \<Rightarrow> real \<Rightarrow> bool \<Rightarrow> bool" where
  "hasLoadedUntilTheEnd rng dur lowLatency =
     (case rng of
        None \<Rightarrow> False
      | Some (rstart, rend) \<Rightarrow> dur - rend \<le> REBUFFERING_GAP lowLatency)"

definition getMediaInfos :: "HTMLMediaElement \<Rightarrow> IPlaybackObserverEventType \<Rightarrow> IMediaInfos" where
  "getMediaInfos mediaElement evt =
     \<lparr> bufferGap = (case el_currentRange mediaElement of
                       Some (rstart, rend) \<Rightarrow> Fin (rend - el_currentTime mediaElement)
                     | None \<Rightarrow> Infinity),
       currentRange = el_currentRange mediaElement,
       position = el_currentTime mediaElement,
       duration = el_duration mediaElement,
       ended = el_ended mediaElement,
       paused = el_paused mediaElement,
       playbackRate = el_playbackRate mediaElement,
       readyState = el_readyState mediaElement,
       seeking = el_seeking mediaElement,
       event = evt \<rparr>"

text \<open>
  The three local variables of \<^verbatim>\<open>getRebufferingStatus\<close>:
  \<^verbatim>\<open>shouldRebuffer\<close>, \<^verbatim>\<open>shouldStopRebuffer\<close> and \<^verbatim>\<open>rebufferEndPosition\<close>.
\<close>

definition rebufferingDecision ::
  "IPlaybackObservation \<Rightarrow> IMediaInfos \<Rightarrow> IPlaybackObserverOptions
     \<Rightarrow> bool \<times> bool \<times> number option" where
  "rebufferingDecision prevObservation currentInfo options =
     (let lowLatency = lowLatencyMode options;
          currentTime = position currentInfo;
          gap = bufferGap currentInfo;
          prevRebuffering = rebuffering prevObservation;
          fullyLoaded = hasLoadedUntilTheEnd (currentRange currentInfo)
                          (duration currentInfo) lowLatency;
          canSwitchToRebuffering =
            (readyState currentInfo \<ge> 1 \<and> event currentInfo \<noteq> Ev_loadedmetadata \<and>
             prevRebuffering = None \<and> \<not> (fullyLoaded \<or> ended currentInfo));
          rebufferGap = REBUFFERING_GAP lowLatency
      in if withMediaSource options then
           (if canSwitchToRebuffering then
              (if num_le gap rebufferGap then (True, False, Some (num_add currentTime gap))
               else if gap = Infinity then (True, False, Some (Fin currentTime))
               else (False, False, None))
            else
              (case prevRebuffering of
                 None \<Rightarrow> (False, False, None)
               | Some prevR \<Rightarrow>
                   (let resumeGap = getRebufferingEndGap prevR lowLatency
                    in if readyState currentInfo > 1 \<and>
                          (fullyLoaded \<or> ended currentInfo \<or>
                           (gap \<noteq> Infinity \<and> num_gt gap resumeGap))
                       then (False, True, None)
                       else if gap = Infinity \<or> num_le gap resumeGap
                       then (False, False,
                             Some (if gap = Infinity then Fin currentTime
                                   else num_add currentTime gap))
                       else (False, False, None))))
         else
           (if canSwitchToRebuffering \<and>
               (\<not> paused currentInfo \<and> event currentInfo = Ev_timeupdate \<and>
                event prevObservation = Ev_timeupdate \<and>
                currentTime = position prevObservation \<or>
                event currentInfo = Ev_seeking \<and> gap = Infinity)
            then (True, False, None)
            else
              (case prevRebuffering of
                 None \<Rightarrow> (False, False, None)
               | Some prevR \<Rightarrow>
                   (if event currentInfo \<noteq> Ev_seeking \<and>
                       currentTime \<noteq> position prevObservation \<or>
                       event currentInfo = Ev_canplay \<or>
                       gap \<noteq> Infinity \<and>
                       (num_gt gap (getRebufferingEndGap prevR lowLatency) \<or>
                        fullyLoaded \<or> ended currentInfo)
                    then (False, True, None)
                    else (False, False, None)))))"

definition getRebufferingStatus ::
  "IPlaybackObservation \<Rightarrow> IMediaInfos \<Rightarrow> IPlaybackObserverOptions \<Rightarrow> real
     \<Rightarrow> IRebufferingStatus option" where
  "getRebufferingStatus prevObservation currentInfo options now =
     (case rebufferingDecision prevObservation currentInfo options of
        (shouldRebuffer, shouldStopRebuffer, rebufferEndPosition) \<Rightarrow>
          (let prevRebuffering = rebuffering prevObservation;
               prevReason = map_option reason prevRebuffering
           in if shouldStopRebuffer then None
              else if shouldRebuffer \<or> prevRebuffering \<noteq> None then
                (let newReason =
                       (if event currentInfo = Ev_seeking \<or> prevReason = Some R_seeking
                        then R_seeking
                        else if seeking currentInfo \<and>
                                (event currentInfo = Ev_internal_seeking \<or>
                                 prevReason = Some R_internal_seek)
                        then R_internal_seek
                        else if seeking currentInfo then R_seeking
                        else if readyState currentInfo = 1 then R_not_ready
                        else R_buffering)
                 in (case prevRebuffering of
                       None \<Rightarrow> Some \<lparr> reason = newReason, rb_timestamp = now,
                                      rb_position = rebufferEndPosition \<rparr>
                     | Some prevR \<Rightarrow>
                         (if reason prevR = newReason
                          then Some \<lparr> reason = reason prevR,
                                      rb_timestamp = rb_timestamp prevR,
                                      rb_position = rebufferEndPosition \<rparr>
                          else Some \<lparr> reason = newReason, rb_timestamp = now,
                                      rb_position = rebufferEndPosition \<rparr>)))
              else None))"

text \<open>
  \<^verbatim>\<open>getFreezingStatus\<close>; \<open>now\<close> is the value of \<^verbatim>\<open>performance.now()\<close>.
\<close>

definition getFreezingStatus ::
  "IPlaybackObservation \<Rightarrow> IMediaInfos \<Rightarrow> real \<Rightarrow> IFreezingStatus option" where
  "getFreezingStatus prevObservation currentInfo now =
     (case freezing prevObservation of
        Some prevFreezing \<Rightarrow>
          (if ended currentInfo \<or> paused currentInfo \<or> readyState currentInfo = 0 \<or>
              playbackRate currentInfo = 0 \<or>
              position prevObservation \<noteq> position currentInfo
           then None
           else Some prevFreezing)
      | None \<Rightarrow>
          (if event currentInfo = Ev_timeupdate \<and>
              num_gt (bufferGap currentInfo) MINIMUM_BUFFER_AMOUNT_BEFORE_FREEZING \<and>
              \<not> ended currentInfo \<and> \<not> paused currentInfo \<and>
              readyState currentInfo \<ge> 1 \<and> playbackRate currentInfo \<noteq> 0 \<and>
              position currentInfo = position prevObservation
           then Some \<lparr> timestamp = now \<rparr>
           else None))"

text \<open>
  The state of a \<^verbatim>\<open>PlaybackObserver\<close>, and one sample: the body of
  \<^verbatim>\<open>getCurrentObservation\<close> followed by the update of \<^verbatim>\<open>_lastObservation\<close>.
  A sample is the event that triggered it, the media element as it is then, and the
  reading of \<^verbatim>\<open>performance.now()\<close>.
\<close>

record PlaybackObserver =
  opts :: IPlaybackObserverOptions
  internalSeekingEventsIncomingCounter :: nat
  lastObservation :: IPlaybackObservation

record sample =
  s_event :: IPlaybackObserverEventType
  s_element :: HTMLMediaElement
  s_now :: real

definition newPlaybackObserver ::
  "HTMLMediaElement \<Rightarrow> IPlaybackObserverOptions \<Rightarrow> PlaybackObserver" where
  "newPlaybackObserver mediaElement options =
     \<lparr> opts = options,
       internalSeekingEventsIncomingCounter = 0,
       lastObservation =
         IMediaInfos.extend (getMediaInfos mediaElement Ev_init)
           (IPlaybackObservation.fields None None) \<rparr>"

definition setCurrentTime :: "PlaybackObserver \<Rightarrow> PlaybackObserver" where
  "setCurrentTime po =
     po\<lparr> internalSeekingEventsIncomingCounter :=
            internalSeekingEventsIncomingCounter po + 1 \<rparr>"

definition getCurrentObservation ::
  "PlaybackObserver \<Rightarrow> sample \<Rightarrow> IPlaybackObservation \<times> PlaybackObserver" where
  "getCurrentObservation po s =
     (let internal = (s_event s = Ev_seeking \<and> internalSeekingEventsIncomingCounter po > 0);
          tmpEvt = (if internal then Ev_internal_seeking else s_event s);
          po1 = (if internal
                 then po\<lparr> internalSeekingEventsIncomingCounter :=
                             internalSeekingEventsIncomingCounter po - 1 \<rparr>
                 else po);
          mediaTimings = getMediaInfos (s_element s) tmpEvt;
          rebufferingStatus =
            getRebufferingStatus (lastObservation po1) mediaTimings (opts po1) (s_now s);
          freezingStatus = getFreezingStatus (lastObservation po1) mediaTimings (s_now s);
          timings = IMediaInfos.extend mediaTimings
                      (IPlaybackObservation.fields rebufferingStatus freezingStatus)
      in (timings, po1\<lparr> lastObservation := timings \<rparr>))"

text \<open>The observations emitted for a sequence of samples.\<close>

fun observations :: "PlaybackObserver \<Rightarrow> sample list \<Rightarrow> IPlaybackObservation list" where
  "observations po [] = []"
| "observations po (s # ss) =
     (case getCurrentObservation po s of
        (obs, po') \<Rightarrow> obs # observations po' ss)"

section \<open>Representation estimator (\<^verbatim>\<open>src/core/abr/representation_estimator.ts\<close>)\<close>

record Representation =
  rep_id :: string
  bitrate :: real

record IABREstimate =
  est_bitrate :: "real option"
  manual :: bool
  representation :: Representation
  urgent :: bool
  knownStableBitrate :: "real option"

record IRepresentationEstimatorClockTick =
  ct_bufferGap :: number
  ct_position :: real
  ct_speed :: real
  ct_duration :: real
  liveGap :: "real option"

record IABRFiltersObject =
  f_bitrate :: "real option"
  f_width :: "real option"

datatype ScoreConfidenceLevel = HIGH | LOW

text \<open>
  A pending request of the \<^verbatim>\<open>PendingRequestsStore\<close>, with what the estimator reads
  of it: \<^verbatim>\<open>content.representation.id\<close>, \<^verbatim>\<open>content.segment.isInit\<close>,
  \<^verbatim>\<open>requestTimestamp\<close> (milliseconds) and \<^verbatim>\<open>duration\<close> (seconds).
\<close>

record IRequestInfo =
  req_id :: string
  req_representation_id :: string
  req_isInit :: bool
  requestTimestamp :: real
  req_duration :: real

text \<open>
  The functions the estimator imports from modules that are not part of the sources at
  hand (\<^verbatim>\<open>select_optimal_representation\<close>, \<^verbatim>\<open>filter_by_bitrate\<close>,
  \<^verbatim>\<open>filter_by_width\<close>, \<^verbatim>\<open>estimateRequestBandwidth\<close> of
  \<^verbatim>\<open>network_analyzer\<close>) are parameters.
\<close>

record abr_functions =
  selectOptimalRepresentation ::
    "Representation list \<Rightarrow> real \<Rightarrow> real \<Rightarrow> number \<Rightarrow> Representation"
  filterByBitrate :: "Representation list \<Rightarrow> real \<Rightarrow> Representation list"
  filterByWidth :: "Representation list \<Rightarrow> real \<Rightarrow> Representation list"
  estimateRequestBandwidth :: "IRequestInfo \<Rightarrow> real option"

text \<open>
  What the stateful collaborators answer while one estimate is computed:
  \<^verbatim>\<open>networkAnalyzer.getBandwidthEstimate\<close> (\<open>bandwidthEstimate\<close>, \<open>bitrateChosen\<close>),
  \<^verbatim>\<open>scoreCalculator.getEstimate\<close>, \<^verbatim>\<open>scoreCalculator.getLastStableRepresentation\<close>,
  \<^verbatim>\<open>networkAnalyzer.isUrgent\<close> (as a function of the bitrate it is given), and
  \<open>perfNow k\<close>, the value of the call number \<open>k\<close> of \<^verbatim>\<open>performance.now()\<close>.
\<close>

record estimator_env =
  bandwidthEstimate :: "real option"
  bitrateChosen :: real
  getEstimate :: "Representation \<Rightarrow> (real \<times> ScoreConfidenceLevel) option"
  getLastStableRepresentation :: "Representation option"
  isUrgent :: "real \<Rightarrow> bool"
  perfNow :: "nat \<Rightarrow> real"

text \<open>
  What one emission of \<^verbatim>\<open>combineLatest([clock$, minAutoBitrate$, maxAutoBitrate$,
  filters$, bufferBasedEstimation$])\<close> carries, with the latest
  \<^verbatim>\<open>currentRepresentation$\<close>, the pending requests and the collaborators at that
  time.
\<close>

record estimator_input =
  env :: estimator_env
  clock :: IRepresentationEstimatorClockTick
  minAutoBitrate :: real
  maxAutoBitrate :: number
  filters :: IABRFiltersObject
  bufferBasedBitrate :: "real option"
  currentRepresentation :: "Representation option"
  requests :: "IRequestInfo list"

record EstimateStorage =
  es_bandwidth :: "real option"
  es_representation :: "Representation option"
  wasGuessed :: bool

text \<open>The variables the auto mode closes over.\<close>

record auto_state =
  prevEstimate :: EstimateStorage
  allowBufferBasedEstimates :: bool
  blockGuessingModeUntil :: real
  consecutiveWrongGuesses :: nat

definition newEstimateStorage :: EstimateStorage where
  "newEstimateStorage = \<lparr> es_bandwidth = None, es_representation = None, wasGuessed = False \<rparr>"

definition store :: "Representation \<Rightarrow> real option \<Rightarrow> bool \<Rightarrow> EstimateStorage" where
  "store rep bw guessed =
     \<lparr> es_bandwidth = bw, es_representation = Some rep, wasGuessed = guessed \<rparr>"

definition initialAutoState :: auto_state where
  "initialAutoState =
     \<lparr> prevEstimate = newEstimateStorage, allowBufferBasedEstimates = False,
       blockGuessingModeUntil = 0, consecutiveWrongGuesses = 0 \<rparr>"

definition getFilteredRepresentations ::
  "abr_functions \<Rightarrow> Representation list \<Rightarrow> IABRFiltersObject \<Rightarrow> Representation list" where
  "getFilteredRepresentations fns representations flt =
     (let reps1 = (case f_bitrate flt of
                     Some b \<Rightarrow> filterByBitrate fns representations b
                   | None \<Rightarrow> representations)
      in (case f_width flt of
            Some w \<Rightarrow> filterByWidth fns reps1 w
          | None \<Rightarrow> reps1))"

text \<open>\<^verbatim>\<open>arrayFindIndex\<close>: the first index whose element satisfies the predicate.\<close>

fun arrayFindIndex :: "'a list \<Rightarrow> ('a \<Rightarrow> bool) \<Rightarrow> nat option" where
  "arrayFindIndex [] p = None"
| "arrayFindIndex (x # xs) p =
     (if p x then Some 0 else map_option Suc (arrayFindIndex xs p))"

definition getSuperiorRepresentation ::
  "Representation list \<Rightarrow> Representation \<Rightarrow> Representation option" where
  "getSuperiorRepresentation representations currentRep =
     (case arrayFindIndex representations (\<lambda>r. rep_id r = rep_id currentRep) of
        None \<Rightarrow> None
      | Some index \<Rightarrow>
          (if index + 1 = length representations then None
           else Some (representations ! (index + 1))))"

text \<open>
  The loop over \<^verbatim>\<open>guessedRepresentationRequests\<close>: the value of
  \<^verbatim>\<open>stayInGuessMode\<close> when it ends.
\<close>

fun stayInGuessMode ::
  "abr_functions \<Rightarrow> estimator_env \<Rightarrow> Representation \<Rightarrow> IRequestInfo list \<Rightarrow> bool" where
  "stayInGuessMode fns e currentRep [] = True"
| "stayInGuessMode fns e currentRep (req # reqs) =
     (let requestElapsedTime = perfNow e 0 - requestTimestamp req
      in if req_isInit req then
           (if requestElapsedTime > 1000 then False
            else stayInGuessMode fns e currentRep reqs)
         else if requestElapsedTime > req_duration req * 1000 then False
         else (case estimateRequestBandwidth fns req of
                 None \<Rightarrow> stayInGuessMode fns e currentRep reqs
               | Some fastBw \<Rightarrow>
                   (if fastBw < bitrate currentRep then False
                    else stayInGuessMode fns e currentRep reqs)))"

text \<open>
  The attempt to start a guess, written twice in the source (when the previous estimate
  was a guess for another Representation than the current one, and when it was not a
  guess).
\<close>

definition tryGuess ::
  "estimator_env \<Rightarrow> IRepresentationEstimatorClockTick \<Rightarrow> Representation list \<Rightarrow> real
     \<Rightarrow> Representation \<Rightarrow> Representation option" where
  "tryGuess e clk reps blockUntil currentRep =
     (case getEstimate e currentRep of
        None \<Rightarrow> None
      | Some (representationScore, confidenceLevel) \<Rightarrow>
          (let enableGuessingMode =
                 (isFinite (ct_bufferGap clk) \<and> num_ge (ct_bufferGap clk) 6 \<and>
                  perfNow e 0 > blockUntil \<and> confidenceLevel = HIGH \<and>
                  div_ge representationScore (ct_speed clk) (14 / 10))
           in if enableGuessingMode then getSuperiorRepresentation reps currentRep
              else None))"

text \<open>
  The choice of the guessing mode: \<^verbatim>\<open>chosenRepFromGuessMode\<close>, with the new values
  of \<^verbatim>\<open>consecutiveWrongGuesses\<close> and \<^verbatim>\<open>blockGuessingModeUntil\<close>.
\<close>

definition guessModeChoice ::
  "abr_functions \<Rightarrow> estimator_input \<Rightarrow> auto_state \<Rightarrow> Representation list \<Rightarrow> Representation
     \<Rightarrow> Representation option \<Rightarrow> Representation option \<times> nat \<times> real" where
  "guessModeChoice fns inp st reps fromBandwidth fromBufferSize =
     (let e = env inp;
          clk = clock inp;
          cwg = consecutiveWrongGuesses st;
          blockUntil = blockGuessingModeUntil st;
          farFromLive = (case liveGap clk of None \<Rightarrow> True | Some g \<Rightarrow> g > 50)
      in if farFromLive then (None, cwg, blockUntil)
         else (case (currentRepresentation inp, es_representation (prevEstimate st)) of
             (None, _) \<Rightarrow> (None, cwg, blockUntil)
           | (Some currentRep, None) \<Rightarrow> (None, cwg, blockUntil)
           | (Some currentRep, Some prevRep) \<Rightarrow>
               (if (case fromBufferSize of
                      None \<Rightarrow> False
                    | Some b \<Rightarrow> bitrate b > bitrate prevRep)
                then (None, cwg, blockUntil)
                else if wasGuessed (prevEstimate st) then
                  (if map_option bitrate fromBufferSize = Some (bitrate prevRep)
                   then (None, 0, blockUntil)
                   else if bitrate fromBandwidth \<ge> bitrate prevRep
                   then (None, 0, blockUntil)
                   else if rep_id currentRep = rep_id prevRep then
                     (let guessedRepresentationRequests =
                            filter (\<lambda>req. req_representation_id req = rep_id currentRep)
                              (requests inp);
                          stay = stayInGuessMode fns e currentRep
                                   guessedRepresentationRequests;
                          scoreData = getEstimate e currentRep
                      in if stay \<and>
                            (case scoreData of
                               None \<Rightarrow> True
                             | Some (score, c) \<Rightarrow> score > 12 / 10)
                         then (Some currentRep, cwg, blockUntil)
                         else (None, cwg + 1,
                               perfNow e 1 + min (real (cwg + 1) * 120000) 360000))
                   else (tryGuess e clk reps blockUntil currentRep, cwg, blockUntil))
                else (tryGuess e clk reps blockUntil currentRep, cwg, blockUntil))))"

text \<open>
  The local values of an estimate of the auto mode: the new value of
  \<^verbatim>\<open>allowBufferBasedEstimates\<close>, \<^verbatim>\<open>chosenRepFromBandwidth\<close> and
  \<^verbatim>\<open>chosenRepFromBufferSize\<close>.
\<close>

definition allowBufferBased :: "auto_state \<Rightarrow> estimator_input \<Rightarrow> bool" where
  "allowBufferBased st inp =
     (let gap = ct_bufferGap (clock inp)
      in if allowBufferBasedEstimates st \<and> num_le gap 5 then False
         else if \<not> allowBufferBasedEstimates st \<and> isFinite gap \<and> num_gt gap 10 then True
         else allowBufferBasedEstimates st)"

definition chosenRepFromBandwidth ::
  "abr_functions \<Rightarrow> Representation list \<Rightarrow> estimator_input \<Rightarrow> Representation" where
  "chosenRepFromBandwidth fns representations inp =
     selectOptimalRepresentation fns
       (getFilteredRepresentations fns representations (filters inp))
       (bitrateChosen (env inp)) (minAutoBitrate inp) (maxAutoBitrate inp)"

definition chosenRepFromBufferSize ::
  "abr_functions \<Rightarrow> Representation list \<Rightarrow> auto_state \<Rightarrow> estimator_input
     \<Rightarrow> Representation option" where
  "chosenRepFromBufferSize fns representations st inp =
     (case bufferBasedBitrate inp of
        None \<Rightarrow> None
      | Some b \<Rightarrow>
          (if allowBufferBased st inp \<and>
              bitrate (chosenRepFromBandwidth fns representations inp) < b
           then Some (selectOptimalRepresentation fns
                        (getFilteredRepresentations fns representations (filters inp))
                        b (minAutoBitrate inp) (maxAutoBitrate inp))
           else None))"

text \<open>
  One estimate of the auto mode: the function given to \<^verbatim>\<open>map\<close> after
  \<^verbatim>\<open>combineLatest\<close>, with the variables it updates.
\<close>

definition autoEstimate ::
  "abr_functions \<Rightarrow> Representation list \<Rightarrow> auto_state \<Rightarrow> estimator_input
     \<Rightarrow> IABREstimate \<times> auto_state" where
  "autoEstimate fns representations st inp =
     (let e = env inp;
          clk = clock inp;
          reps = getFilteredRepresentations fns representations (filters inp);
          stableBitrate =
            (case getLastStableRepresentation e of
               None \<Rightarrow> None
             | Some stableRepresentation \<Rightarrow>
                 Some (bitrate stableRepresentation /
                       (if ct_speed clk > 0 then ct_speed clk else 1)));
          fromBandwidth = chosenRepFromBandwidth fns representations inp;
          fromBufferSize = chosenRepFromBufferSize fns representations st inp
      in (case guessModeChoice fns inp st reps fromBandwidth fromBufferSize of
            (chosenRepFromGuessMode, cwg, blockUntil) \<Rightarrow>
              (let st1 = st\<lparr> allowBufferBasedEstimates := allowBufferBased st inp,
                             blockGuessingModeUntil := blockUntil,
                             consecutiveWrongGuesses := cwg \<rparr>
               in (case chosenRepFromGuessMode of
                     Some guessed \<Rightarrow>
                       (\<lparr> est_bitrate = bandwidthEstimate e, manual = False,
                           representation = guessed, urgent = False,
                           knownStableBitrate = stableBitrate \<rparr>,
                        st1\<lparr> prevEstimate := store guessed (bandwidthEstimate e) True \<rparr>)
                   | None \<Rightarrow>
                       (case fromBufferSize of
                          Some fromBuffer \<Rightarrow>
                            (\<lparr> est_bitrate = bandwidthEstimate e, manual = False,
                                representation = fromBuffer,
                                urgent = isUrgent e (bitrate fromBuffer),
                                knownStableBitrate = stableBitrate \<rparr>,
                             st1\<lparr> prevEstimate :=
                                    store fromBuffer (bandwidthEstimate e) False \<rparr>)
                        | None \<Rightarrow>
                            (\<lparr> est_bitrate = bandwidthEstimate e, manual = False,
                                representation = fromBandwidth,
                                urgent = isUrgent e (bitrate fromBandwidth),
                                knownStableBitrate = stableBitrate \<rparr>,
                             st1\<lparr> prevEstimate :=
                                    store fromBandwidth (bandwidthEstimate e) False \<rparr>))))))"

text \<open>
  The estimates of \<^verbatim>\<open>estimate$\<close> when there are at least two Representations. The
  events are the emissions of \<^verbatim>\<open>manualBitrate$\<close> and, in auto mode, those of
  \<^verbatim>\<open>combineLatest\<close>; \<^verbatim>\<open>switchMap\<close> starts the auto mode afresh, with new
  variables, at each negative manual bitrate.
\<close>

datatype estimator_event = ManualBitrate real | Emission estimator_input

datatype estimator_mode = NotStarted | Manual | Auto auto_state

fun switchedEstimates ::
  "abr_functions \<Rightarrow> Representation list \<Rightarrow> estimator_mode \<Rightarrow> estimator_event list
     \<Rightarrow> IABREstimate list" where
  "switchedEstimates fns representations mode [] = []"
| "switchedEstimates fns representations mode (ManualBitrate manualBitrate # evs) =
     (if manualBitrate \<ge> 0
      then \<lparr> est_bitrate = None, manual = True,
             representation =
               selectOptimalRepresentation fns representations manualBitrate 0 Infinity,
             urgent = True, knownStableBitrate = None \<rparr>
           # switchedEstimates fns representations Manual evs
      else switchedEstimates fns representations (Auto initialAutoState) evs)"
| "switchedEstimates fns representations (Auto st) (Emission inp # evs) =
     (case autoEstimate fns representations st inp of
        (estimate, st') \<Rightarrow> estimate # switchedEstimates fns representations (Auto st') evs)"
| "switchedEstimates fns representations mode (Emission inp # evs) =
     switchedEstimates fns representations mode evs"

text \<open>
  \<^verbatim>\<open>estimate$\<close>: the stream errors (\<open>Inl\<close>) when no Representation is given, and
  is the single estimate of \<^verbatim>\<open>observableOf\<close> when there is one.
\<close>

definition RepresentationEstimator ::
  "abr_functions \<Rightarrow> Representation list \<Rightarrow> estimator_event list
     \<Rightarrow> string + IABREstimate list" where
  "RepresentationEstimator fns representations evs =
     (if length representations = 0
      then Inl ''ABRManager: no representation choice given''
      else if length representations = 1
      then Inr [\<lparr> est_bitrate = None, manual = False,
                  representation = representations ! 0,
                  urgent = True, knownStableBitrate = None \<rparr>]
      else Inr (switchedEstimates fns representations NotStarted evs))"


section \<open>SegmentTemplate index
  (\<^verbatim>\<open>src/parsers/manifest/dash/common/indexes/template.ts\<close>)\<close>

text \<open>
  \<^verbatim>\<open>ITemplateIndex\<close>, without the URLs (their detokenizer is in another module):
  a segment carries the two values its URLs are detokenized with.
\<close>

record ITemplateIndex =
  idx_duration :: real
  idx_timescale :: real
  indexTimeOffset :: real
  presentationTimeOffset :: real
  startNumber :: "int option"

text \<open>
  The \<^verbatim>\<open>ManifestBoundsCalculator\<close> is an object of another module: the index only
  calls its \<^verbatim>\<open>estimateMinimumBound()\<close> and \<^verbatim>\<open>estimateMaximumBound()\<close>, whose
  results (a number or \<^verbatim>\<open>undefined\<close>) are the two fields.
\<close>

record ManifestBoundsCalculator =
  estimateMinimumBound :: "real option"
  estimateMaximumBound :: "real option"

record TemplateRepresentationIndex =
  index :: ITemplateIndex
  aggressiveMode :: bool
  manifestBoundsCalculator :: ManifestBoundsCalculator
  periodStart :: real
  scaledPeriodEnd :: "real option"
  availabilityTimeOffset :: "real option"
  isDynamic :: bool

record ISegment =
  number :: int
  time :: real
  seg_end :: real
  seg_duration :: real
  seg_timescale :: real
  isInit :: bool
  scaledDuration :: real
  manifestTime :: real
  timestampOffset :: real

text \<open>\<^verbatim>\<open>config.MINIMUM_SEGMENT_SIZE\<close>, with the value the specification lists.\<close>

definition MINIMUM_SEGMENT_SIZE :: real where
  "MINIMUM_SEGMENT_SIZE = 5 / 1000"

text \<open>
  The arguments of the constructor that the index keeps (\<^verbatim>\<open>ITemplateIndexIndexArgument\<close>
  and \<^verbatim>\<open>ITemplateIndexContextArgument\<close>), and the constructor, which throws when
  no duration is given.
\<close>

record ITemplateIndexIndexArgument =
  arg_duration :: "real option"
  arg_presentationTimeOffset :: "real option"
  arg_startNumber :: "int option"
  arg_timescale :: "real option"

record ITemplateIndexContextArgument =
  ctx_aggressiveMode :: bool
  ctx_availabilityTimeOffset :: real
  ctx_manifestBoundsCalculator :: ManifestBoundsCalculator
  ctx_periodStart :: real
  ctx_periodEnd :: "real option"
  ctx_isDynamic :: bool

definition newTemplateRepresentationIndex ::
  "ITemplateIndexIndexArgument \<Rightarrow> ITemplateIndexContextArgument
     \<Rightarrow> string + TemplateRepresentationIndex" where
  "newTemplateRepresentationIndex arg ctx =
     (let ts = (case arg_timescale arg of Some t \<Rightarrow> t | None \<Rightarrow> 1);
          pto = (case arg_presentationTimeOffset arg of Some p \<Rightarrow> p | None \<Rightarrow> 0);
          scaledStart = ctx_periodStart ctx * ts
      in (case arg_duration arg of
            None \<Rightarrow> Inl ''Invalid SegmentTemplate: no duration''
          | Some d \<Rightarrow>
              Inr \<lparr> index = \<lparr> idx_duration = d, idx_timescale = ts,
                               indexTimeOffset = pto - scaledStart,
                               presentationTimeOffset = pto,
                               startNumber = arg_startNumber arg \<rparr>,
                    aggressiveMode = ctx_aggressiveMode ctx,
                    manifestBoundsCalculator = ctx_manifestBoundsCalculator ctx,
                    periodStart = ctx_periodStart ctx,
                    scaledPeriodEnd =
                      (case ctx_periodEnd ctx of
                         None \<Rightarrow> None
                       | Some periodEnd \<Rightarrow> Some ((periodEnd - ctx_periodStart ctx) * ts)),
                    availabilityTimeOffset = Some (ctx_availabilityTimeOffset ctx),
                    isDynamic = ctx_isDynamic ctx \<rparr>))"

text \<open>\<^verbatim>\<open>_getFirstSegmentStart\<close>\<close>

definition getFirstSegmentStart :: "TemplateRepresentationIndex \<Rightarrow> real nullable" where
  "getFirstSegmentStart idx =
     (if \<not> isDynamic idx then Val 0
      else if (scaledPeriodEnd idx = Some 0 \<or> scaledPeriodEnd idx = None) \<and>
              (case estimateMaximumBound (manifestBoundsCalculator idx) of
                 None \<Rightarrow> False
               | Some maximumBound \<Rightarrow> maximumBound < periodStart idx)
      then Null
      else (case estimateMinimumBound (manifestBoundsCalculator idx) of
              None \<Rightarrow> Undefined
            | Some firstPosition \<Rightarrow>
                (let segmentTime =
                       (if firstPosition > periodStart idx
                        then (firstPosition - periodStart idx) * idx_timescale (index idx)
                        else 0);
                     numberIndexedToZero = \<lfloor>segmentTime / idx_duration (index idx)\<rfloor>
                 in Val (of_int numberIndexedToZero * idx_duration (index idx)))))"

text \<open>\<^verbatim>\<open>_getLastSegmentStart\<close>\<close>

definition getLastSegmentStart :: "TemplateRepresentationIndex \<Rightarrow> real nullable" where
  "getLastSegmentStart idx =
     (let dur = idx_duration (index idx);
          ts = idx_timescale (index idx)
      in if isDynamic idx then
           (case estimateMaximumBound (manifestBoundsCalculator idx) of
              None \<Rightarrow> Undefined
            | Some lastPos \<Rightarrow>
                (let agressiveModeOffset = (if aggressiveMode idx then dur / ts else 0);
                     scaledLastPosition = (lastPos - periodStart idx) * ts;
                     ato = ((case availabilityTimeOffset idx of
                               Some a \<Rightarrow> a
                             | None \<Rightarrow> 0) + agressiveModeOffset) * ts;
                     numberOfSegmentsAvailable = \<lfloor>(scaledLastPosition + ato) / dur\<rfloor>;
                     beforePeriodEnd =
                       (if scaledLastPosition < 0 then Null
                        else if numberOfSegmentsAvailable \<le> 0 then Null
                        else Val ((of_int numberOfSegmentsAvailable - 1) * dur))
                 in (case scaledPeriodEnd idx of
                       None \<Rightarrow> beforePeriodEnd
                     | Some e \<Rightarrow>
                         (if e < (lastPos + agressiveModeOffset - periodStart idx) * ts
                          then (if e < dur then Null
                                else Val ((of_int \<lfloor>e / dur\<rfloor> - 1) * dur))
                          else beforePeriodEnd))))
         else
           (let maximumTime = (case scaledPeriodEnd idx of Some e \<Rightarrow> e | None \<Rightarrow> 0);
                numberIndexedToZero = \<lceil>maximumTime / dur\<rceil> - 1;
                regularLastSegmentStart = of_int numberIndexedToZero * dur;
                minimumDuration = MINIMUM_SEGMENT_SIZE * ts
            in if maximumTime - regularLastSegmentStart > minimumDuration \<or>
                  numberIndexedToZero = 0
               then Val regularLastSegmentStart
               else Val ((of_int numberIndexedToZero - 1) * dur)))"

text \<open>
  The segment pushed by one iteration of the loop of \<^verbatim>\<open>getSegments\<close>, for the value
  of \<^verbatim>\<open>numberIndexedToZero\<close> and of \<^verbatim>\<open>timeFromPeriodStart\<close>.
\<close>

definition segmentAt :: "TemplateRepresentationIndex \<Rightarrow> int \<Rightarrow> real \<Rightarrow> ISegment" where
  "segmentAt idx numberIndexedToZero timeFromPeriodStart =
     (let dur = idx_duration (index idx);
          ts = idx_timescale (index idx);
          scaledStart = periodStart idx * ts;
          numberOffset = (case startNumber (index idx) of None \<Rightarrow> 1 | Some n \<Rightarrow> n);
          realNumber = numberIndexedToZero + numberOffset;
          realDuration =
            (case scaledPeriodEnd idx of
               None \<Rightarrow> dur
             | Some scaledEnd \<Rightarrow>
                 (if timeFromPeriodStart + dur > scaledEnd
                  then scaledEnd - timeFromPeriodStart
                  else dur));
          realTime = timeFromPeriodStart + scaledStart
      in \<lparr> number = realNumber,
           time = realTime / ts,
           seg_end = (realTime + realDuration) / ts,
           seg_duration = realDuration / ts,
           seg_timescale = 1,
           isInit = False,
           scaledDuration = realDuration / ts,
           manifestTime = timeFromPeriodStart + presentationTimeOffset (index idx),
           timestampOffset = - (indexTimeOffset (index idx) / ts) \<rparr>)"

text \<open>
  The loop of \<^verbatim>\<open>getSegments\<close>, from the current values of
  \<^verbatim>\<open>numberIndexedToZero\<close> and \<^verbatim>\<open>timeFromPeriodStart\<close>. It is entered with a
  positive segment duration only (see \<open>getSegments\<close>).
\<close>

function segmentsLoop ::
  "TemplateRepresentationIndex \<Rightarrow> real \<Rightarrow> int \<Rightarrow> real \<Rightarrow> ISegment list" where
  "segmentsLoop idx lastWantedStartPosition numberIndexedToZero timeFromPeriodStart =
     (if 0 < idx_duration (index idx) \<and> timeFromPeriodStart \<le> lastWantedStartPosition
      then segmentAt idx numberIndexedToZero timeFromPeriodStart
           # segmentsLoop idx lastWantedStartPosition (numberIndexedToZero + 1)
               (timeFromPeriodStart + idx_duration (index idx))
      else [])"
  by pat_completeness auto
termination
proof (relation "measure (\<lambda>(idx, lastWanted, n, t).
                   nat (\<lfloor>(lastWanted - t) / idx_duration (index idx)\<rfloor> + 1))")
  show "wf (measure (\<lambda>(idx, lastWanted, n, t).
                   nat (\<lfloor>(lastWanted - t) / idx_duration (index idx)\<rfloor> + 1)))"
    by simp
next
  fix idx :: TemplateRepresentationIndex and lastWanted :: real and n :: int and t :: real
  assume a: "0 < idx_duration (index idx) \<and> t \<le> lastWanted"
  let ?d = "idx_duration (index idx)"
  have "(lastWanted - (t + ?d)) / ?d = (lastWanted - t) / ?d - 1"
    using a by (simp add: field_simps)
  then have step: "\<lfloor>(lastWanted - (t + ?d)) / ?d\<rfloor> = \<lfloor>(lastWanted - t) / ?d\<rfloor> - 1"
    by simp
  have "0 \<le> (lastWanted - t) / ?d" using a by simp
  then have "0 \<le> \<lfloor>(lastWanted - t) / ?d\<rfloor>" by simp
  with step show "((idx, lastWanted, n + 1, t + ?d), (idx, lastWanted, n, t))
        \<in> measure (\<lambda>(idx, lastWanted, n, t).
                   nat (\<lfloor>(lastWanted - t) / idx_duration (index idx)\<rfloor> + 1))"
    by simp
qed

declare segmentsLoop.simps [simp del]

text \<open>
  \<^verbatim>\<open>getSegments\<close>. The model covers the indexes whose segment duration and timescale
  are positive: with others the source computes on \<^verbatim>\<open>Infinity\<close> and \<^verbatim>\<open>NaN\<close>,
  or its loop does not end, and the result here is \<open>None\<close>.
\<close>

definition getSegments ::
  "TemplateRepresentationIndex \<Rightarrow> real \<Rightarrow> real \<Rightarrow> ISegment list option" where
  "getSegments idx fromTime dur =
     (let duration = idx_duration (index idx);
          ts = idx_timescale (index idx);
          scaledStart = periodStart idx * ts;
          upFromPeriodStart = fromTime * ts - scaledStart;
          toFromPeriodStart = (fromTime + dur) * ts - scaledStart
      in if duration \<le> 0 \<or> ts \<le> 0 then None
         else (case (getFirstSegmentStart idx, getLastSegmentStart idx) of
                 (Val firstSegmentStart, Val lastSegmentStart) \<Rightarrow>
                   (let startPosition = max firstSegmentStart upFromPeriodStart;
                        lastWantedStartPosition = min lastSegmentStart toFromPeriodStart
                    in if lastWantedStartPosition + duration \<le> startPosition then Some []
                       else
                         (let numberIndexedToZero = \<lfloor>startPosition / duration\<rfloor>
                          in Some (segmentsLoop idx lastWantedStartPosition
                                     numberIndexedToZero
                                     (of_int numberIndexedToZero * duration))))
               | _ \<Rightarrow> Some []))"

text \<open>\<^verbatim>\<open>getFirstPosition\<close> and \<^verbatim>\<open>getLastPosition\<close>\<close>

definition getFirstPosition :: "TemplateRepresentationIndex \<Rightarrow> real nullable" where
  "getFirstPosition idx =
     (case getFirstSegmentStart idx of
        Val firstSegmentStart \<Rightarrow>
          Val (firstSegmentStart / idx_timescale (index idx) + periodStart idx)
      | Null \<Rightarrow> Null
      | Undefined \<Rightarrow> Undefined)"

definition getLastPosition :: "TemplateRepresentationIndex \<Rightarrow> real nullable" where
  "getLastPosition idx =
     (case getLastSegmentStart idx of
        Val lastSegmentStart \<Rightarrow>
          (let lastSegmentEnd = lastSegmentStart + idx_duration (index idx)
           in Val (lastSegmentEnd / idx_timescale (index idx) + periodStart idx))
      | Null \<Rightarrow> Null
      | Undefined \<Rightarrow> Undefined)"

section \<open>Segment fetcher (\<^verbatim>\<open>createSegmentFetcher\<close>)\<close>

text \<open>
  The events of the segment loader (\<^verbatim>\<open>ISegmentLoaderEvent\<close>). A request identifier
  may be \<^verbatim>\<open>undefined\<close>, as may the size and the duration of a finished request and
  the total size of a progress event. The response data is not looked at: it is a number
  here.
\<close>

datatype ISegmentLoaderEvent =
    L_request_begin "string option"
  | L_progress "string option" real real "real option"
  | L_request_end "string option" "real option" "real option"
  | L_warning string
  | L_data nat
  | L_chunk nat
  | L_chunk_complete

text \<open>The events sent to \<^verbatim>\<open>requests$\<close>, for the ABR logic.\<close>

datatype IABRRequestEvent =
    RequestBegin string real real real
  | Progress string real real real real
  | Metrics real real
  | RequestEnd string

text \<open>
  The events of the fetcher (\<^verbatim>\<open>ISegmentFetcherEvent\<close>); a chunk carries what its
  \<^verbatim>\<open>parse\<close> function closes over: the response data and \<^verbatim>\<open>isChunked\<close>.
\<close>

datatype ISegmentFetcherEvent =
    F_warning string
  | F_chunk nat bool
  | F_chunk_complete

text \<open>What \<^verbatim>\<open>fetchSegment\<close> reads of the segment of its content.\<close>

record fetched_segment =
  fs_duration :: real
  fs_time :: real
  fs_timescale :: real

text \<open>
  The state of one call of \<^verbatim>\<open>fetchSegment\<close>: the array \<^verbatim>\<open>sentIds\<close>, what has
  been sent to \<^verbatim>\<open>requests$\<close> and what has been emitted to the subscriber.
\<close>

record fetch_state =
  sentIds :: "string list"
  sent :: "IABRRequestEvent list"
  emitted :: "ISegmentFetcherEvent list"

definition getFetcherId :: "string \<Rightarrow> string option \<Rightarrow> string" where
  "getFetcherId idPrefix requestId =
     idPrefix @ (case requestId of Some r \<Rightarrow> ''_'' @ r | None \<Rightarrow> '''')"

text \<open>
  \<^verbatim>\<open>sentIds.splice(sentIds.indexOf(id), 1)\<close>, when the identifier is in the array:
  the first occurrence is removed.
\<close>

fun spliceFirst :: "string \<Rightarrow> string list \<Rightarrow> string list" where
  "spliceFirst i [] = []"
| "spliceFirst i (x # xs) = (if x = i then xs else x # spliceFirst i xs)"

text \<open>
  The function given to \<^verbatim>\<open>tap\<close>, for one event of the loader received at the time
  \<open>now\<close> (the value of \<^verbatim>\<open>performance.now()\<close>).
\<close>

fun tapEvent ::
  "string \<Rightarrow> fetched_segment \<Rightarrow> real \<Rightarrow> ISegmentLoaderEvent \<Rightarrow> fetch_state \<Rightarrow> fetch_state" where
  "tapEvent idPrefix segment now (L_request_begin requestId) st =
     (let i = getFetcherId idPrefix requestId
      in st\<lparr> sentIds := sentIds st @ [i],
              sent := sent st @
                [RequestBegin i (fs_duration segment / fs_timescale segment)
                   (fs_time segment / fs_timescale segment) now] \<rparr>)"
| "tapEvent idPrefix segment now (L_progress requestId dur sz totalSize) st =
     (let i = getFetcherId idPrefix requestId
      in (case totalSize of
            None \<Rightarrow> st
          | Some tot \<Rightarrow>
              (if sz < tot
               then st\<lparr> sent := sent st @ [Progress i dur sz tot now] \<rparr>
               else st)))"
| "tapEvent idPrefix segment now (L_request_end requestId sz dur) st =
     (let i = getFetcherId idPrefix requestId;
          st1 = (case (sz, dur) of
                   (Some s, Some d) \<Rightarrow> st\<lparr> sent := sent st @ [Metrics s d] \<rparr>
                 | _ \<Rightarrow> st)
      in if i \<in> set (sentIds st1)
         then st1\<lparr> sentIds := spliceFirst i (sentIds st1),
                   sent := sent st1 @ [RequestEnd i] \<rparr>
         else st1)"
| "tapEvent idPrefix segment now ev st = st"

text \<open>\<^verbatim>\<open>filter\<close> and \<^verbatim>\<open>mergeMap\<close>: what the subscriber receives for one event.\<close>

fun mergeMapEvent :: "ISegmentLoaderEvent \<Rightarrow> ISegmentFetcherEvent list" where
  "mergeMapEvent (L_warning w) = [F_warning w]"
| "mergeMapEvent L_chunk_complete = [F_chunk_complete]"
| "mergeMapEvent (L_chunk d) = [F_chunk d True]"
| "mergeMapEvent (L_data d) = [F_chunk d False, F_chunk_complete]"
| "mergeMapEvent ev = []"

definition onLoaderEvent ::
  "string \<Rightarrow> fetched_segment \<Rightarrow> fetch_state \<Rightarrow> real \<times> ISegmentLoaderEvent \<Rightarrow> fetch_state" where
  "onLoaderEvent idPrefix segment st timed =
     (case timed of
        (now, ev) \<Rightarrow>
          (let st1 = tapEvent idPrefix segment now ev st
           in st1\<lparr> emitted := emitted st1 @ mergeMapEvent ev \<rparr>))"

text \<open>
  The function given to \<^verbatim>\<open>finalize\<close>, called when the stream completes, errors or
  is unsubscribed from: a loop on \<^verbatim>\<open>sentIds\<close>, which loses its first element at each
  iteration.
\<close>

fun finalizeIds :: "string list \<Rightarrow> IABRRequestEvent list \<Rightarrow> IABRRequestEvent list" where
  "finalizeIds [] out = out"
| "finalizeIds (i # ids) out = finalizeIds ids (out @ [RequestEnd i])"

definition finalize :: "fetch_state \<Rightarrow> fetch_state" where
  "finalize st = st\<lparr> sentIds := [], sent := finalizeIds (sentIds st) (sent st) \<rparr>"

text \<open>
  One call of \<^verbatim>\<open>fetchSegment\<close>, for the prefix \<^verbatim>\<open>idPrefix\<close> its call of
  \<^verbatim>\<open>generateRequestIdPrefix()\<close> returns: the timed events are those the loader has
  emitted when its stream ends, by completion, by an error or because the subscriber
  unsubscribes.
\<close>

definition fetchSegment ::
  "string \<Rightarrow> fetched_segment \<Rightarrow> (real \<times> ISegmentLoaderEvent) list \<Rightarrow> fetch_state" where
  "fetchSegment idPrefix segment events =
     finalize (foldl (onLoaderEvent idPrefix segment)
                 \<lparr> sentIds = [], sent = [], emitted = [] \<rparr> events)"

text \<open>The identifiers of the requests begun and of the requests ended, in order.\<close>

fun begunIds :: "IABRRequestEvent list \<Rightarrow> string list" where
  "begunIds [] = []"
| "begunIds (RequestBegin i d t ts # evs) = i # begunIds evs"
| "begunIds (ev # evs) = begunIds evs"

fun endedIds :: "IABRRequestEvent list \<Rightarrow> string list" where
  "endedIds [] = []"
| "endedIds (RequestEnd i # evs) = i # endedIds evs"
| "endedIds (ev # evs) = endedIds evs"

text \<open>
  The invariant of the state of a fetch: the identifiers of \<^verbatim>\<open>sentIds\<close> are
  those of the requests begun and not ended, as many times, and at no time more requests
  have been ended than begun with an identifier.
\<close>

definition balanced :: "fetch_state \<Rightarrow> bool" where
  "balanced st =
     ((\<forall>i. count_list (sentIds st) i + count_list (endedIds (sent st)) i
            = count_list (begunIds (sent st)) i) \<and>
      (\<forall>n i. count_list (endedIds (take n (sent st))) i
              \<le> count_list (begunIds (take n (sent st))) i))"


section \<open>Track choice manager (\<^verbatim>\<open>TrackChoiceManager\<close>)\<close>

datatype bufferType = Audio | Text | Video

text \<open>
  An Adaptation is an object: \<open>ad_ref\<close> is its identity, compared by \<^verbatim>\<open>===\<close>, next to
  the two properties the manager reads, \<^verbatim>\<open>id\<close> and \<^verbatim>\<open>trickModeTracks\<close> (empty
  when undefined).
\<close>

datatype Adaptation =
  Adaptation (ad_ref: nat) (ad_id: string) (trickModeTracks: "Adaptation list")

text \<open>
  A Period is an object too, which a Manifest update mutates in place: the manager keeps
  references to Periods, and reads them in the heap \<open>h\<close> of the moment. The class is in
  another module; \<open>getSupportedAdaptations\<close> is the result of its method of that name
  for each type.
\<close>

record Period =
  p_id :: string
  p_start :: real
  p_end :: "real option"
  getSupportedAdaptations :: "bufferType \<Rightarrow> Adaptation list"

type_synonym period_ref = nat
type_synonym heap = "period_ref \<Rightarrow> Period"

text \<open>
  \<^verbatim>\<open>IAudioPeriodInfo\<close> and \<^verbatim>\<open>ITextPeriodInfo\<close> (the same fields), and
  \<^verbatim>\<open>IVideoPeriodInfo\<close>. A wanted track is an Adaptation or \<^verbatim>\<open>null\<close>; the last
  emitted track may also be \<^verbatim>\<open>undefined\<close>; a subject is known by a number.
\<close>

record IAudioPeriodInfo =
  wantedTrack :: "Adaptation option"
  lastEmittedTrack :: "Adaptation nullable"
  subject :: "nat option"

record IVideoPeriodInfo = IAudioPeriodInfo +
  wantedTrackBase :: "Adaptation option"

record ITMPeriodInfos =
  period :: period_ref
  inManifest :: bool
  isRemoved :: bool
  p_audio :: IAudioPeriodInfo
  p_text :: IAudioPeriodInfo
  p_video :: IVideoPeriodInfo

record TrackChoiceManager =
  periodStore :: "ITMPeriodInfos list"
  trickModeTrackEnabled :: bool

text \<open>
  What a method does besides changing the manager: a value sent to a subject, a warning or
  an error written to the log.
\<close>

datatype effect = Next nat "Adaptation option" | LogWarn string | LogError string

text \<open>How a method that may throw ends.\<close>

datatype outcome = Returned | Thrown string

text \<open>\<^verbatim>\<open>===\<close> between a last emitted track and a wanted track.\<close>

fun sameTrack :: "Adaptation nullable \<Rightarrow> Adaptation option \<Rightarrow> bool" where
  "sameTrack (Val a) (Some b) = (ad_ref a = ad_ref b)"
| "sameTrack Null None = True"
| "sameTrack l w = False"

text \<open>\<^verbatim>\<open>===\<close> between two wanted tracks.\<close>

fun sameWanted :: "Adaptation option \<Rightarrow> Adaptation option \<Rightarrow> bool" where
  "sameWanted (Some a) (Some b) = (ad_ref a = ad_ref b)"
| "sameWanted None None = True"
| "sameWanted a b = False"

fun asEmitted :: "Adaptation option \<Rightarrow> Adaptation nullable" where
  "asEmitted (Some a) = Val a"
| "asEmitted None = Null"

text \<open>\<^verbatim>\<open>adaptations[0] ?? null\<close>\<close>

fun firstOrNull :: "'a list \<Rightarrow> 'a option" where
  "firstOrNull [] = None"
| "firstOrNull (x # xs) = Some x"

text \<open>
  \<^verbatim>\<open>getRightVideoTrack\<close>, on an Adaptation. \<^verbatim>\<open>generatePeriodInfo\<close> also calls it
  with \<^verbatim>\<open>null\<close> (see there).
\<close>

definition getRightVideoTrack :: "Adaptation \<Rightarrow> bool \<Rightarrow> Adaptation" where
  "getRightVideoTrack adaptation isTrickModeEnabled =
     (case trickModeTracks adaptation of
        [] \<Rightarrow> adaptation
      | t # ts \<Rightarrow> (if isTrickModeEnabled then t else adaptation))"

definition isPeriodItemRemovable :: "ITMPeriodInfos \<Rightarrow> bool" where
  "isPeriodItemRemovable periodItem =
     (\<not> inManifest periodItem \<and> subject (p_text periodItem) = None \<and>
      subject (p_audio periodItem) = None \<and> subject (p_video periodItem) = None)"

fun getPeriodItem :: "heap \<Rightarrow> ITMPeriodInfos list \<Rightarrow> string \<Rightarrow> ITMPeriodInfos option" where
  "getPeriodItem h [] periodId = None"
| "getPeriodItem h (periodI # periods) periodId =
     (if p_id (h (period periodI)) = periodId then Some periodI
      else getPeriodItem h periods periodId)"

text \<open>
  The index of the item \<^verbatim>\<open>getPeriodItem\<close> returns: the methods mutate that item in
  the array.
\<close>

fun findPeriodIndex :: "heap \<Rightarrow> ITMPeriodInfos list \<Rightarrow> string \<Rightarrow> nat option" where
  "findPeriodIndex h [] periodId = None"
| "findPeriodIndex h (periodI # periods) periodId =
     (if p_id (h (period periodI)) = periodId then Some 0
      else map_option Suc (findPeriodIndex h periods periodId))"

text \<open>
  \<^verbatim>\<open>generatePeriodInfo\<close>. It calls \<^verbatim>\<open>getRightVideoTrack\<close> on the first supported
  video Adaptation or, when there is none, on \<^verbatim>\<open>null\<close>: the call then returns
  \<^verbatim>\<open>null\<close> if trick mode tracks are disabled, and otherwise reads the property
  \<^verbatim>\<open>trickModeTracks\<close> of \<^verbatim>\<open>null\<close>, which throws a \<^verbatim>\<open>TypeError\<close> (\<open>Inl\<close>).
\<close>

definition generatePeriodInfo ::
  "heap \<Rightarrow> bool \<Rightarrow> period_ref \<Rightarrow> bool \<Rightarrow> string + ITMPeriodInfos" where
  "generatePeriodInfo h trickMode p inManif =
     (let audioAdaptation = firstOrNull (getSupportedAdaptations (h p) Audio);
          textAdaptation = firstOrNull (getSupportedAdaptations (h p) Text);
          baseVideoAdaptation = firstOrNull (getSupportedAdaptations (h p) Video)
      in (case (case baseVideoAdaptation of
                  Some adaptation \<Rightarrow> Inr (Some (getRightVideoTrack adaptation trickMode))
                | None \<Rightarrow> if trickMode then Inl ''TypeError'' else Inr None) of
            Inl err \<Rightarrow> Inl err
          | Inr videoAdaptation \<Rightarrow>
              Inr \<lparr> period = p, inManifest = inManif, isRemoved = False,
                    p_audio = \<lparr> wantedTrack = audioAdaptation, lastEmittedTrack = Undefined,
                                subject = None \<rparr>,
                    p_text = \<lparr> wantedTrack = textAdaptation, lastEmittedTrack = Undefined,
                               subject = None \<rparr>,
                    p_video = \<lparr> wantedTrack = videoAdaptation,
                                lastEmittedTrack = Undefined, subject = None,
                                wantedTrackBase = baseVideoAdaptation \<rparr> \<rparr>))"

text \<open>
  \<^verbatim>\<open>periods.map(p => this.generatePeriodInfo(p, true))\<close>: the items of the Periods, or
  the first error thrown.
\<close>

fun generateAll :: "heap \<Rightarrow> bool \<Rightarrow> period_ref list \<Rightarrow> string + ITMPeriodInfos list" where
  "generateAll h trickMode [] = Inr []"
| "generateAll h trickMode (p # periods) =
     (case generatePeriodInfo h trickMode p True of
        Inl err \<Rightarrow> Inl err
      | Inr periodInfo \<Rightarrow>
          (case generateAll h trickMode periods of
             Inl err \<Rightarrow> Inl err
           | Inr periodInfos \<Rightarrow> Inr (periodInfo # periodInfos)))"

subsection \<open>\<^verbatim>\<open>updatePeriodList\<close>\<close>

text \<open>
  The three blocks of the branch \<^verbatim>\<open>oldPeriod === newPeriod\<close>, for the text, the video
  and the audio track: each returns the new track information and whether it has been
  pushed to \<^verbatim>\<open>updatedTracks\<close>.
\<close>

definition stillHere :: "Adaptation list \<Rightarrow> Adaptation \<Rightarrow> bool" where
  "stillHere adaptations oldAdaptation =
     list_ex (\<lambda>a. ad_id a = ad_id oldAdaptation) adaptations"

definition reconcileTrack :: "Adaptation list \<Rightarrow> IAudioPeriodInfo \<Rightarrow> IAudioPeriodInfo \<times> bool" where
  "reconcileTrack adaptations info =
     (case wantedTrack info of
        None \<Rightarrow> (info, False)
      | Some oldAdaptation \<Rightarrow>
          (if stillHere adaptations oldAdaptation then (info, False)
           else (info\<lparr> wantedTrack := firstOrNull adaptations \<rparr>, True)))"

definition reconcileVideoTrack ::
  "bool \<Rightarrow> Adaptation list \<Rightarrow> IVideoPeriodInfo \<Rightarrow> IVideoPeriodInfo \<times> bool" where
  "reconcileVideoTrack trickMode videoAdaptations info =
     (case wantedTrack info of
        None \<Rightarrow> (info, False)
      | Some oldVideoAdaptation \<Rightarrow>
          (if stillHere videoAdaptations oldVideoAdaptation then (info, False)
           else
             (let chosenBaseTrack = firstOrNull videoAdaptations
              in (info\<lparr> wantedTrackBase := chosenBaseTrack,
                        wantedTrack :=
                          (case chosenBaseTrack of
                             None \<Rightarrow> None
                           | Some base \<Rightarrow> Some (getRightVideoTrack base trickMode)) \<rparr>,
                  True))))"

text \<open>
  A period item with the types of its tracks that are in \<^verbatim>\<open>updatedTracks\<close>, in the
  order they were pushed. \<^verbatim>\<open>updatedTracks\<close> holds references to the track objects of
  the items; an item is visited once by the loop and stays in the array once it has been
  matched, so that the tracks to notify are kept next to their item.
\<close>

type_synonym pending_item = "ITMPeriodInfos \<times> bufferType list"

definition reconcileItem :: "heap \<Rightarrow> bool \<Rightarrow> ITMPeriodInfos \<Rightarrow> pending_item" where
  "reconcileItem h trickMode periodItem =
     (let newPeriod = h (period periodItem);
          (textInfo, textUpdated) =
            reconcileTrack (getSupportedAdaptations newPeriod Text) (p_text periodItem);
          (videoInfo, videoUpdated) =
            reconcileVideoTrack trickMode (getSupportedAdaptations newPeriod Video)
              (p_video periodItem);
          (audioInfo, audioUpdated) =
            reconcileTrack (getSupportedAdaptations newPeriod Audio) (p_audio periodItem)
      in (periodItem\<lparr> p_text := textInfo, p_video := videoInfo, p_audio := audioInfo \<rparr>,
          (if textUpdated then [Text] else []) @
          (if videoUpdated then [Video] else []) @
          (if audioUpdated then [Audio] else [])))"

text \<open>
  The inner loop of the branch \<^verbatim>\<open>newPeriod === undefined\<close>: every remaining item
  is out of the Manifest, and removed when no subject is linked to it.
\<close>

definition removeRemaining :: "ITMPeriodInfos list \<Rightarrow> ITMPeriodInfos list" where
  "removeRemaining items =
     filter (\<lambda>periodItem. \<not> isPeriodItemRemovable periodItem)
       (map (\<lambda>periodItem. periodItem\<lparr> inManifest := False \<rparr>) items)"

lemma length_removeRemaining: "length (removeRemaining items) \<le> length items"
  by (simp add: removeRemaining_def le_trans [OF length_filter_le])

text \<open>
  The main loop, on the items of the store from the index \<open>i\<close> on and the new Periods
  from the index \<^verbatim>\<open>newPListIdx\<close> on; its result is the store from \<open>i\<close> on, and the
  error thrown if any.
  Removing the item at \<open>i\<close> (\<^verbatim>\<open>splice(i, 1); i--\<close>) goes on with the next item;
  inserting a new item at \<open>i\<close> goes on with the same old item and the next new Period.
  When the new Periods are exhausted, the inner loop runs at each remaining iteration.
  When the store is exhausted the loop ends, and the new Periods that are left
  (\<^verbatim>\<open>periods.slice(newPListIdx)\<close>) are added at the end of the store.
  When \<^verbatim>\<open>generatePeriodInfo\<close> throws, the items already visited keep their changes
  and the others are as they were.
\<close>

function reconcileLoop ::
  "heap \<Rightarrow> bool \<Rightarrow> ITMPeriodInfos list \<Rightarrow> period_ref list
     \<Rightarrow> pending_item list \<times> string option" where
  "reconcileLoop h trickMode [] periods =
     (case generateAll h trickMode periods of
        Inl err \<Rightarrow> ([], Some err)
      | Inr periodsToAdd \<Rightarrow> (map (\<lambda>periodInfo. (periodInfo, [])) periodsToAdd, None))"
| "reconcileLoop h trickMode (periodItem # items) [] =
     (case removeRemaining (periodItem # items) of
        [] \<Rightarrow> ([], None)
      | kept # others \<Rightarrow>
          (case reconcileLoop h trickMode others [] of
             (rest, err) \<Rightarrow> ((kept, []) # rest, err)))"
| "reconcileLoop h trickMode (periodItem # items) (newPeriod # periods) =
     (if period periodItem = newPeriod
      then (case reconcileLoop h trickMode items periods of
              (rest, err) \<Rightarrow> (reconcileItem h trickMode periodItem # rest, err))
      else if p_start (h (period periodItem)) \<le> p_start (h newPeriod)
      then (let gone = periodItem\<lparr> inManifest := False \<rparr>
            in if isPeriodItemRemovable gone
               then reconcileLoop h trickMode items (newPeriod # periods)
               else (case reconcileLoop h trickMode items (newPeriod # periods) of
                       (rest, err) \<Rightarrow> ((gone, []) # rest, err)))
      else (case generatePeriodInfo h trickMode newPeriod True of
              Inl err \<Rightarrow> (map (\<lambda>item. (item, [])) (periodItem # items), Some err)
            | Inr newPeriodInfo \<Rightarrow>
                (case reconcileLoop h trickMode (periodItem # items) periods of
                   (rest, err) \<Rightarrow> ((newPeriodInfo, []) # rest, err))))"
  by pat_completeness auto
termination
proof (relation "measure (\<lambda>(h, trickMode, items, periods). length items + length periods)")
  show "wf (measure (\<lambda>(h, trickMode, items, periods). length items + length periods))"
    by simp
next
  fix h :: heap and trickMode :: bool and periodItem :: ITMPeriodInfos
    and items others :: "ITMPeriodInfos list" and kept :: ITMPeriodInfos
  assume "removeRemaining (periodItem # items) = kept # others"
  then have "length (kept # others) \<le> length (periodItem # items)"
    using length_removeRemaining [of "periodItem # items"] by simp
  then show "((h, trickMode, others, []), (h, trickMode, periodItem # items, []))
      \<in> measure (\<lambda>(h, trickMode, items, periods). length items + length periods)"
    by simp
qed simp_all

text \<open>
  The loop on \<^verbatim>\<open>updatedTracks\<close>: a track whose subject is defined and whose wanted
  track is not the last emitted one is sent to its subject.
\<close>

definition notifyTrack ::
  "('a IAudioPeriodInfo_scheme) \<Rightarrow> ('a IAudioPeriodInfo_scheme) \<times> effect list" where
  "notifyTrack track =
     (case subject track of
        None \<Rightarrow> (track, [])
      | Some s \<Rightarrow>
          (if \<not> sameTrack (lastEmittedTrack track) (wantedTrack track)
           then (track\<lparr> lastEmittedTrack := asEmitted (wantedTrack track) \<rparr>,
                 [Next s (wantedTrack track)])
           else (track, [])))"

fun notifyItem :: "ITMPeriodInfos \<Rightarrow> bufferType list \<Rightarrow> ITMPeriodInfos \<times> effect list" where
  "notifyItem periodItem [] = (periodItem, [])"
| "notifyItem periodItem (Text # types) =
     (case notifyTrack (p_text periodItem) of
        (track, effects) \<Rightarrow>
          (case notifyItem (periodItem\<lparr> p_text := track \<rparr>) types of
             (periodItem', effects') \<Rightarrow> (periodItem', effects @ effects')))"
| "notifyItem periodItem (Video # types) =
     (case notifyTrack (p_video periodItem) of
        (track, effects) \<Rightarrow>
          (case notifyItem (periodItem\<lparr> p_video := track \<rparr>) types of
             (periodItem', effects') \<Rightarrow> (periodItem', effects @ effects')))"
| "notifyItem periodItem (Audio # types) =
     (case notifyTrack (p_audio periodItem) of
        (track, effects) \<Rightarrow>
          (case notifyItem (periodItem\<lparr> p_audio := track \<rparr>) types of
             (periodItem', effects') \<Rightarrow> (periodItem', effects @ effects')))"

fun notifyAll :: "pending_item list \<Rightarrow> ITMPeriodInfos list \<times> effect list" where
  "notifyAll [] = ([], [])"
| "notifyAll ((periodItem, types) # pending) =
     (case notifyItem periodItem types of
        (periodItem', effects) \<Rightarrow>
          (case notifyAll pending of
             (items, effects') \<Rightarrow> (periodItem' # items, effects @ effects')))"

text \<open>The warnings of the loop, one for each track pushed to \<^verbatim>\<open>updatedTracks\<close>.\<close>

fun unavailableWarning :: "bufferType \<Rightarrow> effect" where
  "unavailableWarning Text =
     LogWarn ''TrackChoiceManager: Chosen text Adaptation not available anymore''"
| "unavailableWarning Video =
     LogWarn ''TrackChoiceManager: Chosen video Adaptation not available anymore''"
| "unavailableWarning Audio =
     LogWarn ''TrackChoiceManager: Chosen audio Adaptation not available anymore''"

text \<open>
  \<^verbatim>\<open>updatePeriodList\<close>, in a production build (the assertions on the order of the
  Periods are development checks): the loop with its warnings, then the notifications.
  When \<^verbatim>\<open>generatePeriodInfo\<close> throws, the method ends there: the store keeps the
  changes made so far and nothing is sent. A subject does not call the manager back while
  it is notified.
\<close>

definition updatePeriodList ::
  "heap \<Rightarrow> TrackChoiceManager \<Rightarrow> period_ref list
     \<Rightarrow> outcome \<times> TrackChoiceManager \<times> effect list" where
  "updatePeriodList h tcm periods =
     (let trickMode = trickModeTrackEnabled tcm
      in (case reconcileLoop h trickMode (periodStore tcm) periods of
            (looped, err) \<Rightarrow>
              (let warnings = map unavailableWarning (concat (map snd looped))
               in (case err of
                     Some message \<Rightarrow>
                       (Thrown message, tcm\<lparr> periodStore := map fst looped \<rparr>, warnings)
                   | None \<Rightarrow>
                       (case notifyAll looped of
                          (items, effects) \<Rightarrow>
                            (Returned, tcm\<lparr> periodStore := items \<rparr>,
                             warnings @ effects))))))"

subsection \<open>\<^verbatim>\<open>addTrackChoiceSubject\<close>\<close>

text \<open>A type, as it is written in the messages.\<close>

fun typeName :: "bufferType \<Rightarrow> string" where
  "typeName Audio = ''audio''"
| "typeName Text = ''text''"
| "typeName Video = ''video''"

fun insertNonManifestPeriodInStore ::
  "heap \<Rightarrow> ITMPeriodInfos \<Rightarrow> ITMPeriodInfos list \<Rightarrow> ITMPeriodInfos list" where
  "insertNonManifestPeriodInStore h periodInfo [] = [periodInfo]"
| "insertNonManifestPeriodInStore h periodInfo (periodI # items) =
     (if p_start (h (period periodI)) > p_start (h (period periodInfo))
      then periodInfo # periodI # items
      else periodI # insertNonManifestPeriodInStore h periodInfo items)"

text \<open>Reading and replacing \<^verbatim>\<open>periodItem[bufferType]\<close>, as far as its common fields.\<close>

fun typeInfo :: "ITMPeriodInfos \<Rightarrow> bufferType \<Rightarrow> IAudioPeriodInfo" where
  "typeInfo periodItem Audio = p_audio periodItem"
| "typeInfo periodItem Text = p_text periodItem"
| "typeInfo periodItem Video = IAudioPeriodInfo.truncate (p_video periodItem)"

fun setEmitted ::
  "ITMPeriodInfos \<Rightarrow> bufferType \<Rightarrow> nat option \<Rightarrow> Adaptation nullable \<Rightarrow> ITMPeriodInfos" where
  "setEmitted periodItem Audio s l =
     periodItem\<lparr> p_audio := (p_audio periodItem)\<lparr> subject := s, lastEmittedTrack := l \<rparr> \<rparr>"
| "setEmitted periodItem Text s l =
     periodItem\<lparr> p_text := (p_text periodItem)\<lparr> subject := s, lastEmittedTrack := l \<rparr> \<rparr>"
| "setEmitted periodItem Video s l =
     periodItem\<lparr> p_video := (p_video periodItem)\<lparr> subject := s, lastEmittedTrack := l \<rparr> \<rparr>"

text \<open>
  For a Period that is not in the store yet, the source inserts a new item, whose subject
  it leaves undefined, and sends the choice to the subject given; when
  \<^verbatim>\<open>generatePeriodInfo\<close> throws, nothing has been changed yet.
\<close>

definition addTrackChoiceSubject ::
  "heap \<Rightarrow> TrackChoiceManager \<Rightarrow> bufferType \<Rightarrow> period_ref \<Rightarrow> nat
     \<Rightarrow> outcome \<times> TrackChoiceManager \<times> effect list" where
  "addTrackChoiceSubject h tcm ty p s =
     (case findPeriodIndex h (periodStore tcm) (p_id (h p)) of
        None \<Rightarrow>
          (case generatePeriodInfo h (trickModeTrackEnabled tcm) p False of
             Inl err \<Rightarrow> (Thrown err, tcm, [])
           | Inr periodInfo \<Rightarrow>
               (let choice = wantedTrack (typeInfo periodInfo ty);
                    periodItem = setEmitted periodInfo ty None (asEmitted choice)
                in (Returned,
                    tcm\<lparr> periodStore :=
                           insertNonManifestPeriodInStore h periodItem (periodStore tcm) \<rparr>,
                    [Next s choice])))
      | Some i \<Rightarrow>
          (let periodItem = periodStore tcm ! i
           in if subject (typeInfo periodItem ty) \<noteq> None
              then (Returned, tcm,
                    [LogError (''TrackChoiceManager: Subject already added for '' @
                               typeName ty @ '' and Period '' @ p_id (h p))])
              else
                (let choice = wantedTrack (typeInfo periodItem ty)
                 in (Returned,
                     tcm\<lparr> periodStore :=
                            (periodStore tcm)
                              [i := setEmitted periodItem ty (Some s) (asEmitted choice)] \<rparr>,
                     [Next s choice]))))"

subsection \<open>\<^verbatim>\<open>_setTrackById\<close>\<close>

text \<open>\<^verbatim>\<open>arrayFind\<close>: the first element that satisfies the predicate.\<close>

fun arrayFind :: "'a list \<Rightarrow> ('a \<Rightarrow> bool) \<Rightarrow> 'a option" where
  "arrayFind [] p = None"
| "arrayFind (x # xs) p = (if p x then Some x else arrayFind xs p)"

text \<open>
  The end of \<^verbatim>\<open>_setTrackById\<close>, on the track information of the type: nothing when
  the wanted track is already the new one, else the new wanted track, sent to the subject
  when there is one.
\<close>

definition setWantedTrack ::
  "Adaptation \<Rightarrow> ('a IAudioPeriodInfo_scheme) \<Rightarrow> ('a IAudioPeriodInfo_scheme) \<times> effect list" where
  "setWantedTrack newAdaptation info =
     (if sameWanted (wantedTrack info) (Some newAdaptation) then (info, [])
      else (case subject info of
              None \<Rightarrow> (info\<lparr> wantedTrack := Some newAdaptation \<rparr>, [])
            | Some s \<Rightarrow>
                (info\<lparr> wantedTrack := Some newAdaptation,
                       lastEmittedTrack := Val newAdaptation \<rparr>,
                 [Next s (Some newAdaptation)])))"

definition setTrackById ::
  "heap \<Rightarrow> TrackChoiceManager \<Rightarrow> string \<Rightarrow> bufferType \<Rightarrow> string
     \<Rightarrow> outcome \<times> TrackChoiceManager \<times> effect list" where
  "setTrackById h tcm periodId ty wantedId =
     (case findPeriodIndex h (periodStore tcm) periodId of
        None \<Rightarrow> (Returned, tcm, [LogWarn ''TrackChoiceManager: Given Period not found.''])
      | Some i \<Rightarrow>
          (let periodItem = periodStore tcm ! i;
               thePeriod = h (period periodItem)
           in (case arrayFind (getSupportedAdaptations thePeriod ty)
                       (\<lambda>a. ad_id a = wantedId) of
                 None \<Rightarrow>
                   (Thrown (''Wanted '' @ typeName ty @ '' track not found.''), tcm, [])
               | Some wantedAdaptation \<Rightarrow>
                   (case ty of
                      Video \<Rightarrow>
                        (let video1 = (p_video periodItem)
                                        \<lparr> wantedTrackBase := Some wantedAdaptation \<rparr>;
                             newAdaptation =
                               getRightVideoTrack wantedAdaptation (trickModeTrackEnabled tcm)
                         in (case setWantedTrack newAdaptation video1 of
                               (info, effects) \<Rightarrow>
                                 (Returned,
                                  tcm\<lparr> periodStore :=
                                         (periodStore tcm)
                                           [i := periodItem\<lparr> p_video := info \<rparr>] \<rparr>,
                                  effects)))
                    | Audio \<Rightarrow>
                        (case setWantedTrack wantedAdaptation (p_audio periodItem) of
                           (info, effects) \<Rightarrow>
                             (Returned,
                              tcm\<lparr> periodStore :=
                                     (periodStore tcm)
                                       [i := periodItem\<lparr> p_audio := info \<rparr>] \<rparr>,
                              effects))
                    | Text \<Rightarrow>
                        (case setWantedTrack wantedAdaptation (p_text periodItem) of
                           (info, effects) \<Rightarrow>
                             (Returned,
                              tcm\<lparr> periodStore :=
                                     (periodStore tcm)
                                       [i := periodItem\<lparr> p_text := info \<rparr>] \<rparr>,
                              effects))))))"

definition setAudioTrackByID ::
  "heap \<Rightarrow> TrackChoiceManager \<Rightarrow> string \<Rightarrow> string
     \<Rightarrow> outcome \<times> TrackChoiceManager \<times> effect list" where
  "setAudioTrackByID h tcm periodId wantedId = setTrackById h tcm periodId Audio wantedId"

definition setTextTrackByID ::
  "heap \<Rightarrow> TrackChoiceManager \<Rightarrow> string \<Rightarrow> string
     \<Rightarrow> outcome \<times> TrackChoiceManager \<times> effect list" where
  "setTextTrackByID h tcm periodId wantedId = setTrackById h tcm periodId Text wantedId"

definition setVideoTrackByID ::
  "heap \<Rightarrow> TrackChoiceManager \<Rightarrow> string \<Rightarrow> string
     \<Rightarrow> outcome \<times> TrackChoiceManager \<times> effect list" where
  "setVideoTrackByID h tcm periodId wantedId = setTrackById h tcm periodId Video wantedId"

section \<open>Concrete inputs\<close>

subsection \<open>A playing media element\<close>

definition el0 :: HTMLMediaElement where
  "el0 = \<lparr> el_currentRange = Some (0, 30), el_currentTime = 10, el_duration = 60,
           el_ended = False, el_paused = False, el_playbackRate = 1, el_readyState = 4,
           el_seeking = False \<rparr>"

definition po0 :: PlaybackObserver where
  "po0 = newPlaybackObserver el0 \<lparr> withMediaSource = True, lowLatencyMode = False \<rparr>"

definition tick0 :: sample where
  "tick0 = \<lparr> s_event = Ev_timeupdate, s_element = el0, s_now = 1000 \<rparr>"

definition canplay0 :: sample where
  "canplay0 = \<lparr> s_event = Ev_canplay, s_element = el0, s_now = 1000 \<rparr>"

definition pause0 :: sample where
  "pause0 = \<lparr> s_event = Ev_timeupdate, s_element = el0\<lparr> el_paused := True \<rparr>,
              s_now = 3000 \<rparr>"

subsection \<open>Three Representations near the live edge\<close>

text \<open>
  Modelled from the spec: \<^verbatim>\<open>selectOptimalRepresentation\<close>, whose module
  (\<^verbatim>\<open>core/abr/select_optimal_representation\<close>) is not among the sources. Section 4.5
  of the specification: in manual mode, ``pick the highest Representation with
  \<^verbatim>\<open>bitrate \<le> manual_bitrate\<close> (or the lowest if none qualifies)''; in auto mode,
  ``pick the highest Representation at or below'' the wanted bitrate, ``clamped by
  \<^verbatim>\<open>[min_auto_bitrate, max_auto_bitrate]\<close>''. The Representations are sorted by
  ascending bitrate. It only serves to run the estimator on concrete inputs.
\<close>

fun highestAtOrBelow :: "Representation \<Rightarrow> Representation list \<Rightarrow> real \<Rightarrow> Representation" where
  "highestAtOrBelow best [] wanted = best"
| "highestAtOrBelow best (r # rs) wanted =
     (if bitrate r \<le> wanted then highestAtOrBelow r rs wanted else best)"

fun selectOptimalRepresentationSpec ::
  "Representation list \<Rightarrow> real \<Rightarrow> real \<Rightarrow> number \<Rightarrow> Representation" where
  "selectOptimalRepresentationSpec (r # rs) optimalBitrate minBitrate maxBitrate =
     highestAtOrBelow r rs
       (if optimalBitrate \<le> minBitrate then minBitrate
        else (case maxBitrate of
                Fin m \<Rightarrow> (if optimalBitrate \<ge> m then m else optimalBitrate)
              | Infinity \<Rightarrow> optimalBitrate))"

text \<open>
  The other imported functions: the filters are not called below (the filter object is
  empty), and every request in flight is estimated at 600 kb/s.
\<close>

definition abr0 :: abr_functions where
  "abr0 = \<lparr> selectOptimalRepresentation = selectOptimalRepresentationSpec,
            filterByBitrate = (\<lambda>reps b. reps),
            filterByWidth = (\<lambda>reps w. reps),
            estimateRequestBandwidth = (\<lambda>req. Some 600000) \<rparr>"

definition r400 :: Representation where "r400 = \<lparr> rep_id = ''r400'', bitrate = 400000 \<rparr>"
definition r800 :: Representation where "r800 = \<lparr> rep_id = ''r800'', bitrate = 800000 \<rparr>"
definition r1200 :: Representation where "r1200 = \<lparr> rep_id = ''r1200'', bitrate = 1200000 \<rparr>"

text \<open>
  A bandwidth estimate of 1 Mb/s, a score of 1.6 with a high confidence for the
  Representation at 800 kb/s and none for the others, the time \<open>t\<close>.
\<close>

definition env0 :: "real \<Rightarrow> estimator_env" where
  "env0 t = \<lparr> bandwidthEstimate = Some 1000000, bitrateChosen = 1000000,
              getEstimate = (\<lambda>r. if rep_id r = ''r800'' then Some (16 / 10, HIGH) else None),
              getLastStableRepresentation = None,
              isUrgent = (\<lambda>b. False),
              perfNow = (\<lambda>k. t) \<rparr>"

text \<open>
  An emission 10 s from the live edge with a buffer gap of 8 s, at speed 1, without
  buffer-based estimate, for the current Representation \<open>cur\<close>, the pending requests
  \<open>reqs\<close>, the time \<open>t\<close> and the maximum bitrate \<open>maxB\<close>.
\<close>

definition emission0 ::
  "Representation \<Rightarrow> IRequestInfo list \<Rightarrow> real \<Rightarrow> number \<Rightarrow> estimator_input" where
  "emission0 cur reqs t maxB =
     \<lparr> env = env0 t,
       clock = \<lparr> ct_bufferGap = Fin 8, ct_position = 100, ct_speed = 1, ct_duration = 0,
                 liveGap = Some 10 \<rparr>,
       minAutoBitrate = 0, maxAutoBitrate = maxB,
       filters = \<lparr> f_bitrate = None, f_width = None \<rparr>,
       bufferBasedBitrate = None,
       currentRepresentation = Some cur,
       requests = reqs \<rparr>"

text \<open>A request of a media segment of 4 s of the Representation at 1200 kb/s.\<close>

definition req1200 :: "real \<Rightarrow> IRequestInfo" where
  "req1200 t = \<lparr> req_id = ''req'', req_representation_id = ''r1200'', req_isInit = False,
                 requestTimestamp = t, req_duration = 4 \<rparr>"

text \<open>A guess of the Representation at 1200 kb/s at \<open>t\<close>, found wrong 1 s later.\<close>

definition wrongGuess :: "real \<Rightarrow> estimator_input list" where
  "wrongGuess t = [emission0 r800 [] t Infinity,
                   emission0 r1200 [req1200 (t + 500)] (t + 1000) Infinity]"


subsection \<open>SegmentTemplate indexes\<close>

text \<open>
  Modelled from the spec: the \<^verbatim>\<open>ManifestBoundsCalculator\<close>, whose module
  (\<^verbatim>\<open>parsers/manifest/dash/common/manifest_bounds_calculator\<close>) is not among the
  sources. Section 4.2 of the specification: ``a bounds calculator that estimates min and
  max availability from \<^verbatim>\<open>availability_start_time\<close>,
  \<^verbatim>\<open>timeshift_buffer_depth\<close> [...] and (if known) \<^verbatim>\<open>clock_offset\<close>'': the
  maximum is the server time since the availability start time, the minimum is the
  timeshift buffer depth before the maximum. Times are in seconds. It only serves to build
  the index of the scenario below.
\<close>

definition boundsCalculatorSpec :: "real \<Rightarrow> real \<Rightarrow> real \<Rightarrow> ManifestBoundsCalculator" where
  "boundsCalculatorSpec serverTime availabilityStartTime timeShiftBufferDepth =
     \<lparr> estimateMinimumBound =
         Some (serverTime - availabilityStartTime - timeShiftBufferDepth),
       estimateMaximumBound = Some (serverTime - availabilityStartTime) \<rparr>"

text \<open>
  Scenario 2 of the specification, at the server time \<open>serverTime\<close>: a dynamic index with
  a timescale of 1000, a duration of 4000, a start number of 1, a Period starting at 0
  without known end, no aggressive mode, an availability time offset and an availability
  start time of 0, a timeshift buffer depth of 20 s.
\<close>

definition liveTemplate :: "real \<Rightarrow> string + TemplateRepresentationIndex" where
  "liveTemplate serverTime =
     newTemplateRepresentationIndex
       \<lparr> arg_duration = Some 4000, arg_presentationTimeOffset = None,
         arg_startNumber = Some 1, arg_timescale = Some 1000 \<rparr>
       \<lparr> ctx_aggressiveMode = False, ctx_availabilityTimeOffset = 0,
         ctx_manifestBoundsCalculator = boundsCalculatorSpec serverTime 0 20,
         ctx_periodStart = 0, ctx_periodEnd = None, ctx_isDynamic = True \<rparr>"

text \<open>
  A static index with the same timescale and duration, for a Period from 0 to \<open>periodEnd\<close>
  seconds.
\<close>

definition staticTemplate :: "real \<Rightarrow> TemplateRepresentationIndex" where
  "staticTemplate periodEnd =
     \<lparr> index = \<lparr> idx_duration = 4000, idx_timescale = 1000, indexTimeOffset = 0,
                 presentationTimeOffset = 0, startNumber = Some 1 \<rparr>,
       aggressiveMode = False,
       manifestBoundsCalculator =
         \<lparr> estimateMinimumBound = Some 0, estimateMaximumBound = Some periodEnd \<rparr>,
       periodStart = 0,
       scaledPeriodEnd = Some (periodEnd * 1000),
       availabilityTimeOffset = Some 0,
       isDynamic = False \<rparr>"

subsection \<open>A fetch through a custom segment loader\<close>

text \<open>
  The events the loader emits when a custom segment loader
  (\<^verbatim>\<open>transports/dash/segment_loader.ts\<close>) rejects a first time and resolves at the
  retry: each attempt starts with a \<^verbatim>\<open>request-begin\<close> without request identifier,
  the rejection becomes a warning, the resolution is the data followed by a
  \<^verbatim>\<open>request-end\<close>.
\<close>

definition segment0 :: fetched_segment where
  "segment0 = \<lparr> fs_duration = 4, fs_time = 8, fs_timescale = 1 \<rparr>"

definition retriedCustomLoad :: "(real \<times> ISegmentLoaderEvent) list" where
  "retriedCustomLoad =
     [(0, L_request_begin None), (100, L_warning ''rejected''),
      (300, L_request_begin None), (400, L_data 7),
      (400, L_request_end None (Some 1000) (Some 100))]"

text \<open>A fetch unsubscribed from after the first progress event of its request.\<close>

definition cancelledLoad :: "(real \<times> ISegmentLoaderEvent) list" where
  "cancelledLoad =
     [(0, L_request_begin (Some ''a'')), (50, L_progress (Some ''a'') 50 10 (Some 1000))]"

subsection \<open>A Period with French and German audio\<close>

definition audioFr :: Adaptation where "audioFr = Adaptation 10 ''fr-mp4a.40.5'' []"
definition audioDe :: Adaptation where "audioDe = Adaptation 11 ''de-mp4a.40.2'' []"

text \<open>
  The Period \<^verbatim>\<open>p1\<close> before and after the refresh of scenario 5 of the specification;
  every reference is to that Period.
\<close>

definition heapBefore :: heap where
  "heapBefore = (\<lambda>r. \<lparr> p_id = ''p1'', p_start = 0, p_end = None,
                       getSupportedAdaptations =
                         (\<lambda>ty. case ty of Audio \<Rightarrow> [audioFr, audioDe] | _ \<Rightarrow> []) \<rparr>)"

definition heapAfter :: heap where
  "heapAfter = (\<lambda>r. \<lparr> p_id = ''p1'', p_start = 0, p_end = None,
                      getSupportedAdaptations =
                        (\<lambda>ty. case ty of Audio \<Rightarrow> [audioDe] | _ \<Rightarrow> []) \<rparr>)"

text \<open>
  The manager once the Period is known, the subject 7 has been added for its audio track
  and the user has picked the French track.
\<close>

definition frenchPicked :: TrackChoiceManager where
  "frenchPicked =
     (let tcm1 = fst (snd (updatePeriodList heapBefore
                             \<lparr> periodStore = [], trickModeTrackEnabled = False \<rparr> [1]));
          tcm2 = fst (snd (addTrackChoiceSubject heapBefore tcm1 Audio 1 7))
      in fst (snd (setAudioTrackByID heapBefore tcm2 ''p1'' ''fr-mp4a.40.5'')))"

subsection \<open>A Period whose video track has a trick mode track\<close>

definition videoV1 :: Adaptation where "videoV1 = Adaptation 20 ''v1'' []"
definition trickT2 :: Adaptation where "trickT2 = Adaptation 22 ''t2'' []"
definition videoV2 :: Adaptation where "videoV2 = Adaptation 21 ''v2'' [trickT2]"

definition videoBefore :: heap where
  "videoBefore = (\<lambda>r. \<lparr> p_id = ''p1'', p_start = 0, p_end = None,
                        getSupportedAdaptations =
                          (\<lambda>ty. case ty of Video \<Rightarrow> [videoV1] | _ \<Rightarrow> []) \<rparr>)"

definition videoAfter :: heap where
  "videoAfter = (\<lambda>r. \<lparr> p_id = ''p1'', p_start = 0, p_end = None,
                       getSupportedAdaptations =
                         (\<lambda>ty. case ty of Video \<Rightarrow> [videoV2] | _ \<Rightarrow> []) \<rparr>)"

definition trickModeManager :: TrackChoiceManager where
  "trickModeManager =
     fst (snd (updatePeriodList videoBefore
                 \<lparr> periodStore = [], trickModeTrackEnabled = True \<rparr> [1]))"

text \<open>
  The same manager once the subject 9 has been added for the video track of the Period;
  and a Manifest where that Period has the new video track and is followed by a Period
  \<^verbatim>\<open>p2\<close> without any Adaptation.
\<close>

definition trickModeWatched :: TrackChoiceManager where
  "trickModeWatched = fst (snd (addTrackChoiceSubject videoBefore trickModeManager Video 1 9))"

definition videoThenNothing :: heap where
  "videoThenNothing =
     (\<lambda>r. if r = 1 then videoAfter 1
          else \<lparr> p_id = ''p2'', p_start = 10, p_end = None,
                 getSupportedAdaptations = (\<lambda>ty. []) \<rparr>)"

text \<open>A Manifest with a Period \<^verbatim>\<open>p0\<close> that starts when the Period \<^verbatim>\<open>p1\<close> does.\<close>

definition sameStart :: heap where
  "sameStart =
     (\<lambda>r. if r = 1 then heapAfter 1
          else \<lparr> p_id = ''p0'', p_start = 0, p_end = None,
                 getSupportedAdaptations = (\<lambda>ty. []) \<rparr>)"

subsection \<open>A live Manifest whose first Period leaves and to which a Period is added\<close>




section \<open>Playback observer: freezing\<close>

lemmas observer_defs =
  getCurrentObservation_def getMediaInfos_def IMediaInfos.defs IPlaybackObservation.defs

lemma lastObservation_getCurrentObservation:
  "lastObservation (snd (getCurrentObservation po s)) = fst (getCurrentObservation po s)"
  by (simp add: observer_defs Let_def)

lemma position_getCurrentObservation:
  "position (fst (getCurrentObservation po s)) = el_currentTime (s_element s)"
  by (simp add: observer_defs Let_def)

lemma freezing_po0: "freezing (lastObservation po0) = None"
  by (simp add: po0_def newPlaybackObserver_def IMediaInfos.defs IPlaybackObservation.defs)

text \<open>
  Claim C7, as stated, says that a player that is not freezing starts to freeze on any
  sample whose position is unchanged while the buffer gap is above
  \<^verbatim>\<open>MINIMUM_BUFFER_AMOUNT_BEFORE_FREEZING\<close>, the element is neither paused nor ended,
  its ready state is at least 1 and its playback rate is not 0, whatever event triggered
  the sample. \<^verbatim>\<open>getFreezingStatus\<close> also asks for the event \<^verbatim>\<open>timeupdate\<close>:
  on a \<^verbatim>\<open>canplay\<close> sample that meets every other condition the status stays null.
\<close>

theorem C7_canplay_counterexample:
  "freezing (lastObservation po0) = None \<and>
   position (fst (getCurrentObservation po0 canplay0)) = position (lastObservation po0) \<and>
   num_gt (bufferGap (fst (getCurrentObservation po0 canplay0)))
     MINIMUM_BUFFER_AMOUNT_BEFORE_FREEZING \<and>
   paused (fst (getCurrentObservation po0 canplay0)) = False \<and>
   ended (fst (getCurrentObservation po0 canplay0)) = False \<and>
   readyState (fst (getCurrentObservation po0 canplay0)) = 4 \<and>
   playbackRate (fst (getCurrentObservation po0 canplay0)) = 1 \<and>
   freezing (fst (getCurrentObservation po0 canplay0)) = None"
  by (simp add: po0_def el0_def canplay0_def newPlaybackObserver_def observer_defs Let_def
      getFreezingStatus_def MINIMUM_BUFFER_AMOUNT_BEFORE_FREEZING_def)

text \<open>
  Claim C7, amended: when the previous observation is not freezing, the new observation
  is freezing exactly when the sample was triggered by the timer (event
  \<^verbatim>\<open>timeupdate\<close>), the position is the one of the previous observation, the buffer
  gap is above \<^verbatim>\<open>MINIMUM_BUFFER_AMOUNT_BEFORE_FREEZING\<close>, the element is neither
  paused nor ended, its ready state is at least 1 and its playback rate is not 0; the
  status then carries the time of the sample.
\<close>

theorem C7_freezing_starts_on_timeupdate:
  assumes "freezing (lastObservation po) = None"
      and "obs = fst (getCurrentObservation po s)"
  shows "freezing obs =
         (if event obs = Ev_timeupdate \<and> position obs = position (lastObservation po) \<and>
             num_gt (bufferGap obs) MINIMUM_BUFFER_AMOUNT_BEFORE_FREEZING \<and>
             \<not> paused obs \<and> \<not> ended obs \<and> readyState obs \<ge> 1 \<and> playbackRate obs \<noteq> 0
          then Some \<lparr> timestamp = s_now s \<rparr> else None)"
  using assms by (auto simp add: observer_defs Let_def getFreezingStatus_def)

theorem C7_freezing_starts_on_timeupdate_witness:
  "freezing (lastObservation po0) = None \<and>
   freezing (fst (getCurrentObservation po0 tick0)) = Some \<lparr> timestamp = 1000 \<rparr>"
  using C7_freezing_starts_on_timeupdate [OF freezing_po0 refl, of tick0]
  by (simp add: freezing_po0)
     (simp add: po0_def el0_def tick0_def newPlaybackObserver_def observer_defs Let_def
        MINIMUM_BUFFER_AMOUNT_BEFORE_FREEZING_def)

lemma freezing_step:
  assumes "freezing (lastObservation po) = Some fr"
  shows "freezing (fst (getCurrentObservation po s)) =
           (if el_ended (s_element s) \<or> el_paused (s_element s) \<or>
               el_readyState (s_element s) = 0 \<or> el_playbackRate (s_element s) = 0 \<or>
               el_currentTime (s_element s) \<noteq> position (lastObservation po)
            then None else Some fr)"
  using assms by (auto simp add: observer_defs Let_def getFreezingStatus_def)

text \<open>
  Claim C8: once an observation carries a freezing status, every following observation
  carries the same status (same timestamp) as long as the samples are not ended, not
  paused, have a ready state other than 0, a playback rate other than 0 and the same
  position; the first sample where one of these fails has a null freezing status.
\<close>

theorem C8_freezing_kept_until_exit:
  assumes "freezing (lastObservation po) = Some fr"
      and "list_all (\<lambda>s. \<not> el_ended (s_element s) \<and> \<not> el_paused (s_element s) \<and>
                          el_readyState (s_element s) \<noteq> 0 \<and>
                          el_playbackRate (s_element s) \<noteq> 0 \<and>
                          el_currentTime (s_element s) = position (lastObservation po)) ss"
  shows "list_all (\<lambda>obs. freezing obs = Some fr) (observations po ss) \<and>
         freezing (last (observations po (ss @ [s]))) =
           (if el_ended (s_element s) \<or> el_paused (s_element s) \<or>
               el_readyState (s_element s) = 0 \<or> el_playbackRate (s_element s) = 0 \<or>
               el_currentTime (s_element s) \<noteq> position (lastObservation po)
            then None else Some fr)"
  using assms
proof (induction ss arbitrary: po)
  case Nil
  then show ?case by (simp add: freezing_step split_beta)
next
  case (Cons a ss)
  let ?po' = "snd (getCurrentObservation po a)"
  have stay: "freezing (fst (getCurrentObservation po a)) = Some fr"
    using Cons.prems by (simp add: freezing_step)
  have fr': "freezing (lastObservation ?po') = Some fr"
    using stay by (simp add: lastObservation_getCurrentObservation)
  have pos': "position (lastObservation ?po') = position (lastObservation po)"
    using Cons.prems(2)
    by (simp add: lastObservation_getCurrentObservation position_getCurrentObservation)
  have rest: "list_all (\<lambda>s. \<not> el_ended (s_element s) \<and> \<not> el_paused (s_element s) \<and>
                          el_readyState (s_element s) \<noteq> 0 \<and>
                          el_playbackRate (s_element s) \<noteq> 0 \<and>
                          el_currentTime (s_element s) = position (lastObservation ?po')) ss"
    using Cons.prems(2) pos' by simp
  have nonempty: "observations ?po' (ss @ [s]) \<noteq> []"
    by (cases ss) (simp_all split: prod.splits)
  from Cons.IH [OF fr' rest] stay pos' nonempty show ?case
    by (simp add: split_beta)
qed

lemma frozen0:
  "freezing (lastObservation (snd (getCurrentObservation po0 tick0))) =
     Some \<lparr> timestamp = 1000 \<rparr>"
  by (simp add: po0_def el0_def tick0_def newPlaybackObserver_def observer_defs Let_def
      getFreezingStatus_def MINIMUM_BUFFER_AMOUNT_BEFORE_FREEZING_def)

lemma stay0:
  "list_all (\<lambda>s. \<not> el_ended (s_element s) \<and> \<not> el_paused (s_element s) \<and>
                  el_readyState (s_element s) \<noteq> 0 \<and> el_playbackRate (s_element s) \<noteq> 0 \<and>
                  el_currentTime (s_element s) =
                    position (lastObservation (snd (getCurrentObservation po0 tick0))))
     [canplay0, tick0]"
  by (simp add: po0_def el0_def tick0_def canplay0_def observer_defs Let_def)

theorem C8_freezing_kept_until_exit_witness:
  "list_all (\<lambda>obs. freezing obs = Some \<lparr> timestamp = 1000 \<rparr>)
     (observations (snd (getCurrentObservation po0 tick0)) [canplay0, tick0]) \<and>
   freezing (last (observations (snd (getCurrentObservation po0 tick0))
                     ([canplay0, tick0] @ [pause0]))) = None"
  using C8_freezing_kept_until_exit [OF frozen0 stay0, of pause0]
  by (simp add: pause0_def)

section \<open>Representation estimator\<close>

lemmas abr_defs =
  autoEstimate_def guessModeChoice_def chosenRepFromBandwidth_def chosenRepFromBufferSize_def
  allowBufferBased_def getFilteredRepresentations_def tryGuess_def
  getSuperiorRepresentation_def store_def div_ge_def

lemmas abr_inputs =
  emission0_def env0_def abr0_def r400_def r800_def r1200_def req1200_def wrongGuess_def
  initialAutoState_def newEstimateStorage_def

text \<open>
  Claim C10: with exactly one Representation the estimate stream is that Representation
  with \<open>urgent = true\<close>, \<open>manual = false\<close> and neither bitrate nor known stable
  bitrate, whatever the inputs; with no Representation the stream errors and emits
  nothing.
\<close>

theorem C10_single_or_no_representation:
  "RepresentationEstimator fns [r] evs =
     Inr [\<lparr> est_bitrate = None, manual = False, representation = r, urgent = True,
             knownStableBitrate = None \<rparr>] \<and>
   RepresentationEstimator fns [] evs = Inl ''ABRManager: no representation choice given''"
  by (simp add: RepresentationEstimator_def)










text \<open>
  Claim C3 at a concrete input: three Representations at 400, 800 and 1200 kb/s, no
  minimum bitrate and a maximum bitrate of 800 kb/s, in auto mode. The first estimate,
  from the bandwidth, is the Representation at 800 kb/s. The second estimate is a guess:
  the Representation at 1200 kb/s, above the maximum although two Representations are
  within the bounds.
\<close>

theorem C3_guess_exceeds_max_auto_bitrate:
  "map_sum (\<lambda>err. err) (map (\<lambda>estimate. (bitrate (representation estimate), manual estimate)))
     (RepresentationEstimator abr0 [r400, r800, r1200]
        [ManualBitrate (- 1),
         Emission (emission0 r800 [] 500 (Fin 800000)),
         Emission (emission0 r800 [] 1000 (Fin 800000))]) =
   Inr [(800000, False), (1200000, False)]"
  by (simp add: RepresentationEstimator_def abr_defs abr_inputs Let_def)

section \<open>SegmentTemplate index\<close>

lemmas template_inputs =
  liveTemplate_def newTemplateRepresentationIndex_def boundsCalculatorSpec_def
  staticTemplate_def MINIMUM_SEGMENT_SIZE_def







text \<open>
  The segment cut at the end of the Period is returned, with its real duration, as long as
  the request starts before the end of the uncut segment: for a Period of 10 s,
  \<^verbatim>\<open>getSegments(11, 1)\<close> returns the segment from 8 to 10 s.
\<close>

lemma last_segment_before_request:
  "map_option (map (\<lambda>s. (time s, seg_duration s))) (getSegments (staticTemplate 10) 11 1)
     = Some [(8, 2)]"
  by (simp add: getSegments_def getFirstSegmentStart_def getLastSegmentStart_def
      template_inputs segmentsLoop.simps segmentAt_def Let_def)




text \<open>
  Claim C5, as stated, expects a last position of about 96 s in scenario 2 of the
  specification (server time 100 s). \<^verbatim>\<open>getLastPosition\<close> adds the duration of a
  segment to the start of the last segment, which is at 96 s: it returns 100 s.
\<close>

theorem C5_last_position_counterexample:
  "map_sum (\<lambda>err. err) (\<lambda>idx. (getLastSegmentStart idx, getLastPosition idx))
     (liveTemplate 100) = Inr (Val 96000, Val 100)"
  by (simp add: getLastSegmentStart_def getLastPosition_def template_inputs Let_def)

lemma floor_scaled: "\<lfloor>(x * 1000) / 4000\<rfloor> = \<lfloor>(x::real) / 4\<rfloor>"
proof -
  have "x * 1000 / 4000 = x / 4" by simp
  then show ?thesis by simp
qed

lemma first_live:
  assumes "20 \<le> serverTime" and "liveTemplate serverTime = Inr idx"
  shows "getFirstPosition idx = Val (4 * of_int \<lfloor>(serverTime - 20) / 4\<rfloor>)"
proof -
  have idx: "idx = \<lparr> index = \<lparr> idx_duration = 4000, idx_timescale = 1000, indexTimeOffset = 0,
                 presentationTimeOffset = 0, startNumber = Some 1 \<rparr>,
       aggressiveMode = False,
       manifestBoundsCalculator = boundsCalculatorSpec serverTime 0 20,
       periodStart = 0, scaledPeriodEnd = None, availabilityTimeOffset = Some 0, isDynamic = True \<rparr>"
    using assms(2) by (simp add: liveTemplate_def newTemplateRepresentationIndex_def)
  have start: "getFirstSegmentStart idx = Val (of_int \<lfloor>((serverTime - 20) * 1000) / 4000\<rfloor> * 4000)"
    using assms(1) unfolding idx getFirstSegmentStart_def boundsCalculatorSpec_def Let_def
    by auto
  show ?thesis
    unfolding getFirstPosition_def start floor_scaled by (simp add: idx)
qed

lemma last_live:
  assumes "4 \<le> serverTime" and "liveTemplate serverTime = Inr idx"
  shows "getLastPosition idx = Val (4 * of_int \<lfloor>serverTime / 4\<rfloor>)"
proof -
  have idx: "idx = \<lparr> index = \<lparr> idx_duration = 4000, idx_timescale = 1000, indexTimeOffset = 0,
                 presentationTimeOffset = 0, startNumber = Some 1 \<rparr>,
       aggressiveMode = False,
       manifestBoundsCalculator = boundsCalculatorSpec serverTime 0 20,
       periodStart = 0, scaledPeriodEnd = None, availabilityTimeOffset = Some 0, isDynamic = True \<rparr>"
    using assms(2) by (simp add: liveTemplate_def newTemplateRepresentationIndex_def)
  have "1 \<le> serverTime / 4" using assms(1) by simp
  then have "1 \<le> \<lfloor>serverTime / 4\<rfloor>" by (simp add: le_floor_iff)
  then have pos: "\<not> \<lfloor>(serverTime * 1000) / 4000\<rfloor> \<le> 0" unfolding floor_scaled by simp
  have start: "getLastSegmentStart idx = Val ((of_int \<lfloor>(serverTime * 1000) / 4000\<rfloor> - 1) * 4000)"
    using assms(1) pos unfolding idx getLastSegmentStart_def boundsCalculatorSpec_def Let_def
    by simp
  show ?thesis
    unfolding getLastPosition_def start floor_scaled by (simp add: idx Let_def field_simps)
qed


text \<open>
  Claim C5, amended: in scenario 2 of the specification, at a server time of at least
  20 s, the first position is the server time minus 20 s aligned down to a multiple of the
  segment duration of 4 s, and the last position is the server time aligned down to a
  multiple of 4 s, which is the end of the last segment available; at a server time of
  100 s they are 80 s and 100 s.
\<close>

theorem C5_live_positions:
  assumes "20 \<le> serverTime" and "liveTemplate serverTime = Inr idx"
  shows "getFirstPosition idx = Val (4 * of_int \<lfloor>(serverTime - 20) / 4\<rfloor>) \<and>
         getLastPosition idx = Val (4 * of_int \<lfloor>serverTime / 4\<rfloor>)"
  using assms first_live [of serverTime idx] last_live [of serverTime idx] by simp

theorem C5_live_positions_witness:
  "map_sum (\<lambda>err. err) (\<lambda>idx. (getFirstPosition idx, getLastPosition idx))
     (liveTemplate 100) = Inr (Val 80, Val 100)"
proof -
  obtain idx where idx: "liveTemplate 100 = Inr idx"
    by (simp add: liveTemplate_def newTemplateRepresentationIndex_def)
  have h: "(20::real) \<le> 100" by simp
  show ?thesis
    using C5_live_positions [OF h idx] by (simp add: idx)
qed

section \<open>Segment fetcher\<close>


lemma begunIds_append: "begunIds (xs @ ys) = begunIds xs @ begunIds ys"
  by (induction xs rule: begunIds.induct) simp_all

lemma endedIds_append: "endedIds (xs @ ys) = endedIds xs @ endedIds ys"
  by (induction xs rule: endedIds.induct) simp_all

lemma finalizeIds_eq: "finalizeIds ids out = out @ map RequestEnd ids"
  by (induction ids arbitrary: out) simp_all

lemma endedIds_map_RequestEnd: "endedIds (map RequestEnd ids) = ids"
  by (induction ids) simp_all

lemma begunIds_map_RequestEnd: "begunIds (map RequestEnd ids) = []"
  by (induction ids) simp_all

lemma count_list_spliceFirst:
  "count_list (spliceFirst i xs) j =
     (if j = i \<and> i \<in> set xs then count_list xs j - 1 else count_list xs j)"
  by (induction xs) auto

lemma count_list_take: "count_list (take k xs) i \<le> count_list xs i"
proof (induction xs arbitrary: k)
  case Nil
  then show ?case by simp
next
  case (Cons x xs)
  show ?case
  proof (cases k)
    case 0
    then show ?thesis by simp
  next
    case (Suc m)
    then show ?thesis using Cons [of m] by simp
  qed
qed

lemma count_list_pos: "i \<in> set xs \<Longrightarrow> 0 < count_list xs i"
  by (induction xs) auto

lemma prefixes_append:
  assumes "\<forall>n i. count_list (endedIds (take n xs)) i \<le> count_list (begunIds (take n xs)) i"
      and "\<forall>k i. count_list (endedIds xs) i + count_list (endedIds (take k ys)) i
                 \<le> count_list (begunIds xs) i + count_list (begunIds (take k ys)) i"
  shows "count_list (endedIds (take n (xs @ ys))) i
           \<le> count_list (begunIds (take n (xs @ ys))) i"
proof (cases "n \<le> length xs")
  case True
  then show ?thesis using assms(1) by simp
next
  case False
  then show ?thesis
    using assms(2) by (simp add: endedIds_append begunIds_append)
qed

lemma balanced_append:
  assumes bal: "balanced st"
      and sent: "sent st' = sent st @ new"
      and c1: "\<And>i. count_list (sentIds st') i + count_list (endedIds new) i
                  = count_list (sentIds st) i + count_list (begunIds new) i"
      and c2: "\<And>k i. count_list (endedIds (take k new)) i
                  \<le> count_list (sentIds st) i + count_list (begunIds (take k new)) i"
  shows "balanced st'"
proof -
  have I1: "\<And>i. count_list (sentIds st) i + count_list (endedIds (sent st)) i
               = count_list (begunIds (sent st)) i"
    using bal by (simp add: balanced_def)
  have I2: "\<forall>n i. count_list (endedIds (take n (sent st))) i
               \<le> count_list (begunIds (take n (sent st))) i"
    using bal by (simp add: balanced_def)
  have J1: "count_list (sentIds st') i + count_list (endedIds (sent st')) i
               = count_list (begunIds (sent st')) i" for i
    using I1 [of i] c1 [of i] by (simp add: sent endedIds_append begunIds_append)
  have ext: "\<forall>k i. count_list (endedIds (sent st)) i + count_list (endedIds (take k new)) i
                 \<le> count_list (begunIds (sent st)) i + count_list (begunIds (take k new)) i"
  proof (intro allI)
    fix k i
    show "count_list (endedIds (sent st)) i + count_list (endedIds (take k new)) i
            \<le> count_list (begunIds (sent st)) i + count_list (begunIds (take k new)) i"
      using I1 [of i] c2 [of k i] by linarith
  qed
  have J2: "count_list (endedIds (take n (sent st'))) i
               \<le> count_list (begunIds (take n (sent st'))) i" for n i
    unfolding sent by (rule prefixes_append [OF I2 ext])
  show ?thesis
    using J1 J2 by (simp add: balanced_def)
qed

lemma balanced_tapEvent:
  assumes "balanced st"
  shows "balanced (tapEvent idPrefix segment now ev st)"
proof (cases ev)
  case (L_request_begin r)
  let ?i = "getFetcherId idPrefix r"
  let ?new = "[RequestBegin ?i (fs_duration segment / fs_timescale segment)
                 (fs_time segment / fs_timescale segment) now]"
  show ?thesis
  proof (rule balanced_append [OF assms, where new = ?new])
    show "sent (tapEvent idPrefix segment now ev st) = sent st @ ?new"
      by (simp add: L_request_begin Let_def)
    show "count_list (sentIds (tapEvent idPrefix segment now ev st)) i
            + count_list (endedIds ?new) i
          = count_list (sentIds st) i + count_list (begunIds ?new) i" for i
      by (simp add: L_request_begin Let_def)
    show "count_list (endedIds (take k ?new)) i
            \<le> count_list (sentIds st) i + count_list (begunIds (take k ?new)) i" for k i
      by (simp add: take_Cons')
  qed
next
  case (L_progress r d s t)
  let ?i = "getFetcherId idPrefix r"
  let ?new = "(case t of None \<Rightarrow> []
               | Some tot \<Rightarrow> if s < tot then [Progress ?i d s tot now] else [])"
  show ?thesis
  proof (rule balanced_append [OF assms, where new = ?new])
    show "sent (tapEvent idPrefix segment now ev st) = sent st @ ?new"
      by (simp add: L_progress Let_def split: option.splits)
    show "count_list (sentIds (tapEvent idPrefix segment now ev st)) i
            + count_list (endedIds ?new) i
          = count_list (sentIds st) i + count_list (begunIds ?new) i" for i
      by (simp add: L_progress Let_def split: option.splits)
    show "count_list (endedIds (take k ?new)) i
            \<le> count_list (sentIds st) i + count_list (begunIds (take k ?new)) i" for k i
      by (simp add: take_Cons' split: option.splits)
  qed
next
  case (L_request_end r s d)
  let ?i = "getFetcherId idPrefix r"
  let ?m = "(case (s, d) of (Some sz, Some du) \<Rightarrow> [Metrics sz du] | _ \<Rightarrow> [])"
  let ?e = "(if ?i \<in> set (sentIds st) then [RequestEnd ?i] else [])"
  have pos: "?i \<in> set (sentIds st) \<Longrightarrow> Suc 0 \<le> count_list (sentIds st) ?i"
    using count_list_pos [of ?i "sentIds st"] by simp
  show ?thesis
  proof (rule balanced_append [OF assms, where new = "?m @ ?e"])
    show "sent (tapEvent idPrefix segment now ev st) = sent st @ (?m @ ?e)"
      by (simp add: L_request_end Let_def split: option.splits)
    show "count_list (sentIds (tapEvent idPrefix segment now ev st)) i
            + count_list (endedIds (?m @ ?e)) i
          = count_list (sentIds st) i + count_list (begunIds (?m @ ?e)) i" for i
      using pos
      by (auto simp add: L_request_end Let_def count_list_spliceFirst endedIds_append
          begunIds_append split: option.splits)
    show "count_list (endedIds (take k (?m @ ?e))) i
            \<le> count_list (sentIds st) i + count_list (begunIds (take k (?m @ ?e))) i" for k i
      using pos
      by (auto simp add: take_Cons' endedIds_append begunIds_append split: option.splits)
  qed
qed (use assms in \<open>simp_all add: balanced_def\<close>)

lemma balanced_onLoaderEvent:
  "balanced st \<Longrightarrow> balanced (onLoaderEvent idPrefix segment st timed)"
  using balanced_tapEvent [of st idPrefix segment "fst timed" "snd timed"]
  by (simp add: onLoaderEvent_def balanced_def Let_def split_beta)

lemma balanced_foldl:
  "balanced st \<Longrightarrow> balanced (foldl (onLoaderEvent idPrefix segment) st events)"
  by (induction events arbitrary: st) (simp_all add: balanced_onLoaderEvent)

lemma balanced_init: "balanced \<lparr> sentIds = [], sent = [], emitted = [] \<rparr>"
  by (simp add: balanced_def)


lemma begunIds_tapEvent:
  "begunIds (sent (tapEvent idPrefix segment now ev st)) =
     begunIds (sent st) @
       (case ev of L_request_begin r \<Rightarrow> [getFetcherId idPrefix r] | _ \<Rightarrow> [])"
  by (cases ev) (auto simp: Let_def begunIds_append split: option.splits)

lemma begunIds_foldl:
  "begunIds (sent (foldl (onLoaderEvent idPrefix segment) st events)) =
     begunIds (sent st) @
       concat (map (\<lambda>timed. case snd timed of
                               L_request_begin r \<Rightarrow> [getFetcherId idPrefix r]
                             | _ \<Rightarrow> []) events)"
proof (induction events arbitrary: st)
  case Nil
  then show ?case by simp
next
  case (Cons timed events)
  have "begunIds (sent (onLoaderEvent idPrefix segment st timed)) =
          begunIds (sent st) @
            (case snd timed of L_request_begin r \<Rightarrow> [getFetcherId idPrefix r] | _ \<Rightarrow> [])"
    using begunIds_tapEvent [of idPrefix segment "fst timed" "snd timed" st]
    by (simp add: onLoaderEvent_def Let_def split_beta)
  then show ?case
    using Cons [of "onLoaderEvent idPrefix segment st timed"] by simp
qed

lemma progress_tapEvent:
  "filter (\<lambda>e. case e of Progress i d s t n \<Rightarrow> True | _ \<Rightarrow> False)
     (sent (tapEvent idPrefix segment now ev st)) =
   filter (\<lambda>e. case e of Progress i d s t n \<Rightarrow> True | _ \<Rightarrow> False) (sent st) @
     (case ev of
        L_progress r d s (Some tot) \<Rightarrow>
          (if s < tot then [Progress (getFetcherId idPrefix r) d s tot now] else [])
      | _ \<Rightarrow> [])"
  by (cases ev) (auto simp: Let_def split: option.splits)

lemma progress_foldl:
  "filter (\<lambda>e. case e of Progress i d s t n \<Rightarrow> True | _ \<Rightarrow> False)
     (sent (foldl (onLoaderEvent idPrefix segment) st events)) =
   filter (\<lambda>e. case e of Progress i d s t n \<Rightarrow> True | _ \<Rightarrow> False) (sent st) @
     concat (map (\<lambda>timed. case snd timed of
                     L_progress r d s (Some tot) \<Rightarrow>
                       (if s < tot
                        then [Progress (getFetcherId idPrefix r) d s tot (fst timed)]
                        else [])
                   | _ \<Rightarrow> []) events)"
proof (induction events arbitrary: st)
  case Nil
  then show ?case by simp
next
  case (Cons timed events)
  have "filter (\<lambda>e. case e of Progress i d s t n \<Rightarrow> True | _ \<Rightarrow> False)
          (sent (onLoaderEvent idPrefix segment st timed)) =
        filter (\<lambda>e. case e of Progress i d s t n \<Rightarrow> True | _ \<Rightarrow> False) (sent st) @
          (case snd timed of
             L_progress r d s (Some tot) \<Rightarrow>
               (if s < tot then [Progress (getFetcherId idPrefix r) d s tot (fst timed)]
                else [])
           | _ \<Rightarrow> [])"
    using progress_tapEvent [of idPrefix segment "fst timed" "snd timed" st]
    by (simp add: onLoaderEvent_def Let_def split_beta)
  then show ?case
    using Cons [of "onLoaderEvent idPrefix segment st timed"] by simp
qed

lemma count_list_distinct: "distinct xs \<Longrightarrow> i \<in> set xs \<Longrightarrow> count_list xs i = 1"
  by (induction xs) auto


text \<open>
  What the fetcher ensures for every sequence of events of the loader, whether the stream
  completes, errors or is unsubscribed from: for every identifier, the request-end events
  sent with it are as many as the request-begin events sent with it, and at no point of the
  sequence more than them; a request-begin event is sent for each one of the loader, and the
  progress events sent are those of the loader whose size is below a known total size.
\<close>

lemma request_ends_match_begins:
  assumes "sentEvents = sent (fetchSegment idPrefix segment events)"
  shows "(\<forall>i. count_list (endedIds sentEvents) i = count_list (begunIds sentEvents) i) \<and>
         (\<forall>n i. count_list (endedIds (take n sentEvents)) i
                  \<le> count_list (begunIds (take n sentEvents)) i) \<and>
         (distinct (begunIds sentEvents) \<longrightarrow>
            (\<forall>i \<in> set (begunIds sentEvents). count_list (endedIds sentEvents) i = 1)) \<and>
         begunIds sentEvents =
           concat (map (\<lambda>timed. case snd timed of
                                   L_request_begin r \<Rightarrow> [getFetcherId idPrefix r]
                                 | _ \<Rightarrow> []) events) \<and>
         filter (\<lambda>e. case e of Progress i d s t n \<Rightarrow> True | _ \<Rightarrow> False) sentEvents =
           concat (map (\<lambda>timed. case snd timed of
                           L_progress r d s (Some tot) \<Rightarrow>
                             (if s < tot
                              then [Progress (getFetcherId idPrefix r) d s tot (fst timed)]
                              else [])
                         | _ \<Rightarrow> []) events)"
proof -
  let ?st = "foldl (onLoaderEvent idPrefix segment)
               \<lparr> sentIds = [], sent = [], emitted = [] \<rparr> events"
  have bal: "balanced ?st"
    by (rule balanced_foldl [OF balanced_init])
  have unfolded: "sentEvents = sent ?st @ map RequestEnd (sentIds ?st)"
    by (simp add: assms fetchSegment_def finalize_def finalizeIds_eq)
  have I1: "\<And>i. count_list (sentIds ?st) i + count_list (endedIds (sent ?st)) i
               = count_list (begunIds (sent ?st)) i"
    using bal by (simp add: balanced_def)
  have I2: "\<forall>n i. count_list (endedIds (take n (sent ?st))) i
               \<le> count_list (begunIds (take n (sent ?st))) i"
    using bal by (simp add: balanced_def)
  have eq: "count_list (endedIds sentEvents) i = count_list (begunIds sentEvents) i" for i
    using I1 [of i]
    by (simp add: unfolded endedIds_append begunIds_append endedIds_map_RequestEnd
        begunIds_map_RequestEnd)
  have ext: "\<forall>k i. count_list (endedIds (sent ?st)) i
                     + count_list (endedIds (take k (map RequestEnd (sentIds ?st)))) i
                 \<le> count_list (begunIds (sent ?st)) i
                     + count_list (begunIds (take k (map RequestEnd (sentIds ?st)))) i"
  proof (intro allI)
    fix k i
    have "count_list (take k (sentIds ?st)) i \<le> count_list (sentIds ?st) i"
      by (rule count_list_take)
    then show "count_list (endedIds (sent ?st)) i
                     + count_list (endedIds (take k (map RequestEnd (sentIds ?st)))) i
                 \<le> count_list (begunIds (sent ?st)) i
                     + count_list (begunIds (take k (map RequestEnd (sentIds ?st)))) i"
      using I1 [of i]
      by (simp add: take_map endedIds_map_RequestEnd begunIds_map_RequestEnd)
  qed
  have pre: "count_list (endedIds (take n sentEvents)) i
               \<le> count_list (begunIds (take n sentEvents)) i" for n i
    unfolding unfolded by (rule prefixes_append [OF I2 ext])
  have once: "distinct (begunIds sentEvents) \<longrightarrow>
                (\<forall>i \<in> set (begunIds sentEvents). count_list (endedIds sentEvents) i = 1)"
    using eq count_list_distinct by metis
  have begun: "begunIds sentEvents =
           concat (map (\<lambda>timed. case snd timed of
                                   L_request_begin r \<Rightarrow> [getFetcherId idPrefix r]
                                 | _ \<Rightarrow> []) events)"
    by (simp add: unfolded begunIds_append begunIds_map_RequestEnd begunIds_foldl)
  have prog: "filter (\<lambda>e. case e of Progress i d s t n \<Rightarrow> True | _ \<Rightarrow> False) sentEvents =
           concat (map (\<lambda>timed. case snd timed of
                           L_progress r d s (Some tot) \<Rightarrow>
                             (if s < tot
                              then [Progress (getFetcherId idPrefix r) d s tot (fst timed)]
                              else [])
                         | _ \<Rightarrow> []) events)"
    by (simp add: unfolded progress_foldl filter_map comp_def)
  show ?thesis
    using eq pre once begun prog by blast
qed

lemma cancelled_fetch_ends_request:
  "sent (fetchSegment ''3'' segment0 cancelledLoad) =
     [RequestBegin ''3_a'' 4 8 0, Progress ''3_a'' 50 10 1000 50, RequestEnd ''3_a'']"
  by (simp add: fetchSegment_def cancelledLoad_def segment0_def onLoaderEvent_def
      finalize_def getFetcherId_def Let_def)


text \<open>
  Claim C2: a fetch sends exactly one request-begin event with a given identifier, and
  exactly one request-end event with that identifier. The code does not ensure it. The
  identifier is built by \<^verbatim>\<open>getFetcherId\<close>, documented as a unique identifier for a
  single request, from the prefix of the fetch and the request identifier of the loader;
  when the loader gives none, it is the prefix alone. A custom segment loader begins a
  request without identifier at each attempt: when it rejects and the load is retried
  within the fetch, two request-begin events are sent with the same identifier, and two
  request-end events.
\<close>

theorem C2_retry_reuses_request_id:
  "sent (fetchSegment ''3'' segment0 retriedCustomLoad) =
     [RequestBegin ''3'' 4 8 0, RequestBegin ''3'' 4 8 300, Metrics 1000 100,
      RequestEnd ''3'', RequestEnd ''3''] \<and>
   count_list (begunIds (sent (fetchSegment ''3'' segment0 retriedCustomLoad))) ''3'' = 2 \<and>
   count_list (endedIds (sent (fetchSegment ''3'' segment0 retriedCustomLoad))) ''3'' = 2"
  by (simp add: fetchSegment_def retriedCustomLoad_def segment0_def onLoaderEvent_def
      finalize_def getFetcherId_def Let_def)

section \<open>Track choice manager\<close>


lemma getPeriodItem_index:
  "getPeriodItem h items periodId =
     map_option (\<lambda>i. items ! i) (findPeriodIndex h items periodId)"
  by (induction items) (auto simp: option.map_comp comp_def)

lemma arrayFind_None: "(arrayFind xs p = None) = (\<not> list_ex p xs)"
  by (induction xs) auto


text \<open>
  Claim C9: when no item of the store is for a Period of the given identifier, setting a
  track by identifier returns, with the manager unchanged, nothing sent to a subject and a
  warning logged; when the Period is found and none of its supported Adaptations of the
  type has the given identifier, the call throws and the manager is unchanged. The three
  public methods call \<^verbatim>\<open>_setTrackById\<close> with their type.
\<close>

theorem C9_unknown_period_or_track:
  "(getPeriodItem h (periodStore tcm) periodId = None \<longrightarrow>
      setTrackById h tcm periodId ty wantedId =
        (Returned, tcm, [LogWarn ''TrackChoiceManager: Given Period not found.''])) \<and>
   (\<forall>periodItem.
      getPeriodItem h (periodStore tcm) periodId = Some periodItem \<and>
      \<not> list_ex (\<lambda>a. ad_id a = wantedId)
           (getSupportedAdaptations (h (period periodItem)) ty) \<longrightarrow>
      setTrackById h tcm periodId ty wantedId =
        (Thrown (''Wanted '' @ typeName ty @ '' track not found.''), tcm, []))"
proof (cases "findPeriodIndex h (periodStore tcm) periodId")
  case None
  then show ?thesis
    by (simp add: getPeriodItem_index setTrackById_def)
next
  case (Some i)
  have "setTrackById h tcm periodId ty wantedId =
          (Thrown (''Wanted '' @ typeName ty @ '' track not found.''), tcm, [])"
    if "\<not> list_ex (\<lambda>a. ad_id a = wantedId)
            (getSupportedAdaptations (h (period (periodStore tcm ! i))) ty)"
  proof -
    have "arrayFind (getSupportedAdaptations (h (period (periodStore tcm ! i))) ty)
            (\<lambda>a. ad_id a = wantedId) = None"
      using that by (simp add: arrayFind_None)
    then show ?thesis
      using Some by (simp add: setTrackById_def Let_def)
  qed
  then show ?thesis
    using Some by (simp add: getPeriodItem_index)
qed

lemmas tcm_inputs = frenchPicked_def heapBefore_def heapAfter_def audioFr_def audioDe_def
  videoBefore_def videoAfter_def videoV1_def videoV2_def trickT2_def trickModeManager_def

lemmas tcm_defs = updatePeriodList_def addTrackChoiceSubject_def setAudioTrackByID_def
  setTrackById_def generatePeriodInfo_def reconcileItem_def reconcileTrack_def
  reconcileVideoTrack_def stillHere_def notifyTrack_def setWantedTrack_def
  getRightVideoTrack_def isPeriodItemRemovable_def removeRemaining_def

lemma frenchPicked_eq:
  "frenchPicked =
     \<lparr> periodStore =
         [\<lparr> period = 1, inManifest = True, isRemoved = False,
            p_audio = \<lparr> wantedTrack = Some audioFr, lastEmittedTrack = Val audioFr,
                        subject = Some 7 \<rparr>,
            p_text = \<lparr> wantedTrack = None, lastEmittedTrack = Undefined, subject = None \<rparr>,
            p_video = \<lparr> wantedTrack = None, lastEmittedTrack = Undefined, subject = None,
                        wantedTrackBase = None \<rparr> \<rparr>],
       trickModeTrackEnabled = False \<rparr>"
  by (simp add: frenchPicked_def heapBefore_def audioFr_def audioDe_def tcm_defs Let_def)

theorem C9_unknown_period_or_track_witness:
  "setTrackById heapBefore frenchPicked ''p2'' Audio ''fr-mp4a.40.5'' =
     (Returned, frenchPicked, [LogWarn ''TrackChoiceManager: Given Period not found.'']) \<and>
   setTrackById heapBefore frenchPicked ''p1'' Video ''fr-mp4a.40.5'' =
     (Thrown ''Wanted video track not found.'', frenchPicked, [])"
proof -
  have none: "getPeriodItem heapBefore (periodStore frenchPicked) ''p2'' = None"
    by (simp add: frenchPicked_eq heapBefore_def)
  have some: "getPeriodItem heapBefore (periodStore frenchPicked) ''p1''
                = Some (periodStore frenchPicked ! 0)"
    by (simp add: frenchPicked_eq heapBefore_def)
  have missing: "\<not> list_ex (\<lambda>a. ad_id a = ''fr-mp4a.40.5'')
                     (getSupportedAdaptations
                        (heapBefore (period (periodStore frenchPicked ! 0))) Video)"
    by (simp add: heapBefore_def)
  show ?thesis
    using C9_unknown_period_or_track [of heapBefore frenchPicked "''p2''" Audio "''fr-mp4a.40.5''"]
          C9_unknown_period_or_track [of heapBefore frenchPicked "''p1''" Video "''fr-mp4a.40.5''"]
          none some missing
    by simp
qed






















lemmas tcm_inputs2 = tcm_inputs trickModeWatched_def videoThenNothing_def sameStart_def

lemma trickModeWatched_eq:
  "trickModeWatched =
     \<lparr> periodStore =
         [\<lparr> period = 1, inManifest = True, isRemoved = False,
            p_audio = \<lparr> wantedTrack = None, lastEmittedTrack = Undefined, subject = None \<rparr>,
            p_text = \<lparr> wantedTrack = None, lastEmittedTrack = Undefined, subject = None \<rparr>,
            p_video = \<lparr> wantedTrack = Some videoV1, lastEmittedTrack = Val videoV1,
                        subject = Some 9, wantedTrackBase = Some videoV1 \<rparr> \<rparr>],
       trickModeTrackEnabled = True \<rparr>"
  by (simp add: tcm_inputs2 tcm_defs Let_def IAudioPeriodInfo.truncate_def)

text \<open>
  With trick mode tracks enabled, a new Period without supported video Adaptation makes
  \<^verbatim>\<open>updatePeriodList\<close> throw: the track of the Period visited before has its new
  wanted track, and its subject is not notified.
\<close>

lemma updatePeriodList_throws:
  "updatePeriodList videoThenNothing trickModeWatched [1, 2] =
     (Thrown ''TypeError'',
      \<lparr> periodStore =
          [\<lparr> period = 1, inManifest = True, isRemoved = False,
             p_audio = \<lparr> wantedTrack = None, lastEmittedTrack = Undefined, subject = None \<rparr>,
             p_text = \<lparr> wantedTrack = None, lastEmittedTrack = Undefined, subject = None \<rparr>,
             p_video = \<lparr> wantedTrack = Some trickT2, lastEmittedTrack = Val videoV1,
                         subject = Some 9, wantedTrackBase = Some videoV2 \<rparr> \<rparr>],
        trickModeTrackEnabled = True \<rparr>,
      [LogWarn ''TrackChoiceManager: Chosen video Adaptation not available anymore''])"
  unfolding trickModeWatched_eq
  by (simp add: videoThenNothing_def videoAfter_def videoV1_def videoV2_def trickT2_def
      tcm_defs Let_def)

text \<open>
  The loop relies on the order of the Periods: when a new Period starts at the time a
  tracked Period does and comes before it in the list, the item of the tracked Period is
  marked as out of the Manifest and left as it is, and another item is made for it.
\<close>

lemma same_start_not_reconciled:
  "map (\<lambda>item. (period item, inManifest item, wantedTrack (p_audio item)))
     (periodStore (fst (snd (updatePeriodList sameStart frenchPicked [2, 1])))) =
     [(1, False, Some audioFr), (2, True, None), (1, True, Some audioDe)]"
  unfolding frenchPicked_eq
  by (simp add: sameStart_def heapAfter_def audioFr_def audioDe_def tcm_defs Let_def)







end
